theory Spec2Isabelle
  imports Main
begin

section \<open>The hospital management server: documents and store\<close>

text \<open>
  The server of \<^verbatim>\<open>main.py\<close> keeps six MongoDB collections and exposes its
  operations as tools. Every tool body is one \<^verbatim>\<open>try\<close> block whose handler turns
  any exception into \<^verbatim>\<open>{"error": str(e)}\<close>, so each operation of the model returns
  either an error value or its success payload, and the store it leaves behind.

  A BSON date is a number of milliseconds since the epoch; every instant that reaches
  the store or a query is such a number. The values that \<^verbatim>\<open>datetime.utcnow()\<close>
  returns are arguments of the operations, one per call in the source.
\<close>

type_synonym datetime = int
type_synonym oid = string

datatype exn = InvalidId | ValueError | DuplicateKeyError | OverflowError | OperationFailure

text \<open>
  One constructor per error message of the source; \<open>Exception\<close> is the catch-all
  handler \<^verbatim>\<open>except Exception as e: return {"error": str(e)}\<close>.
\<close>

datatype error =
    PatientNotFound string
  | DoctorNotFound string
  | AppointmentNotFound string
  | SlotBooked
  | NoFieldsToUpdate
  | Exception exn

text \<open>
  The library functions the tools call are not part of the repository. They are taken
  as parameters: \<open>ObjectId\<close> is the constructor of \<^verbatim>\<open>bson.ObjectId\<close> on a string
  (\<open>None\<close> when it raises \<^verbatim>\<open>InvalidId\<close>), \<open>strptime\<close> is
  \<^verbatim>\<open>datetime.strptime(s, "%Y-%m-%d %H:%M")\<close> (\<open>None\<close> when it raises
  \<^verbatim>\<open>ValueError\<close>), and \<open>regex\<close> compiles a case-insensitive \<^verbatim>\<open>$regex\<close> pattern
  (\<open>None\<close> when the server rejects the pattern).
\<close>

record runtime =
  ObjectId :: "string \<Rightarrow> oid option"
  strptime :: "string \<Rightarrow> datetime option"
  regex :: "string \<Rightarrow> (string \<Rightarrow> bool) option"

record patient =
  p_id :: oid
  p_name :: string
  p_age :: int
  p_gender :: string
  p_contact :: string
  p_email :: "string option"
  p_address :: "string option"
  p_blood_group :: "string option"
  p_emergency_contact :: "string option"
  p_allergies :: "string option"
  p_created_at :: "datetime option"
  p_updated_at :: "datetime option"

record doctor =
  d_id :: oid
  d_name :: string
  d_specialization :: string
  d_qualification :: string
  d_contact :: string
  d_email :: string
  d_department :: string
  d_experience_years :: int

record appointment =
  ap_id :: oid
  ap_patient_id :: string
  ap_patient_name :: string
  ap_doctor_id :: string
  ap_doctor_name :: string
  appointment_datetime :: datetime
  ap_reason :: string
  ap_symptoms :: "string option"
  ap_status :: string
  ap_created_at :: datetime
  ap_updated_at :: "datetime option"
  cancelled_at :: "datetime option"
  cancellation_reason :: "string option"

record medical_record =
  mr_id :: oid
  mr_patient_id :: string
  mr_doctor_id :: string
  visit_date :: datetime
  mr_diagnosis :: string

record prescription =
  rx_id :: oid
  rx_patient_id :: string
  rx_doctor_id :: string
  prescribed_date :: datetime
  rx_status :: string

record lab_report =
  lr_id :: oid
  lr_patient_id :: string
  lr_doctor_id :: string
  test_date :: datetime
  lr_test_name :: string

text \<open>A collection is the list of its documents in insertion order.\<close>

record db =
  patients_collection :: "patient list"
  doctors_collection :: "doctor list"
  appointments_collection :: "appointment list"
  medical_records_collection :: "medical_record list"
  prescriptions_collection :: "prescription list"
  lab_reports_collection :: "lab_report list"

section \<open>Store primitives\<close>

text \<open>Python's truth value of an \<^verbatim>\<open>Optional[str]\<close>: \<^verbatim>\<open>None\<close> and \<^verbatim>\<open>""\<close> are false.\<close>

fun truthy :: "string option \<Rightarrow> bool" where
  "truthy None = False"
| "truthy (Some s) = (s \<noteq> [])"

text \<open>The filter \<^verbatim>\<open>"status": {"$in": ["scheduled", "confirmed"]}\<close>.\<close>

definition status_in_active :: "appointment \<Rightarrow> bool" where
  "status_in_active a = (ap_status a = ''scheduled'' \<or> ap_status a = ''confirmed'')"

text \<open>
  \<^verbatim>\<open>init_db.py\<close> creates the compound index
  \<^verbatim>\<open>create_index([("doctor_id", 1), ("appointment_datetime", 1)], unique=True)\<close> on the
  appointments: the store refuses a write that would give two documents the same key.
\<close>

definition slot :: "appointment \<Rightarrow> string \<times> datetime" where
  "slot a = (ap_doctor_id a, appointment_datetime a)"

text \<open>
  \<^verbatim>\<open>insert_one\<close>: the document gets the generated \<open>_id\<close> and is appended, unless the
  \<open>_id\<close> index or the unique slot index rejects it.
\<close>

definition insert_one_appointment :: "appointment \<Rightarrow> appointment list \<Rightarrow> exn + appointment list" where
  "insert_one_appointment doc coll =
     (if list_ex (\<lambda>a. ap_id a = ap_id doc) coll \<or> list_ex (\<lambda>a. slot a = slot doc) coll
      then Inl DuplicateKeyError
      else Inr (coll @ [doc]))"

fun replace_first :: "('a \<Rightarrow> bool) \<Rightarrow> ('a \<Rightarrow> 'a) \<Rightarrow> 'a list \<Rightarrow> 'a list" where
  "replace_first q upd [] = []"
| "replace_first q upd (x # xs) = (if q x then upd x # xs else x # replace_first q upd xs)"

text \<open>
  \<^verbatim>\<open>update_one(filter, {"$set": ...})\<close>: the first matching document is updated; the
  result is \<open>modified_count\<close> (0 when nothing matches or when the \<^verbatim>\<open>$set\<close> leaves the
  document as it was) and the collection.
\<close>

definition update_one :: "('a \<Rightarrow> bool) \<Rightarrow> ('a \<Rightarrow> 'a) \<Rightarrow> 'a list \<Rightarrow> nat \<times> 'a list" where
  "update_one q upd coll =
     (case find q coll of
        None \<Rightarrow> (0, coll)
      | Some d \<Rightarrow> if upd d = d then (0, coll) else (1, replace_first q upd coll))"

text \<open>On the appointments, an update that moves a document onto another document's slot is refused.\<close>

definition update_one_appointment ::
  "oid \<Rightarrow> (appointment \<Rightarrow> appointment) \<Rightarrow> appointment list \<Rightarrow> exn + nat \<times> appointment list" where
  "update_one_appointment i upd coll =
     (case find (\<lambda>a. ap_id a = i) coll of
        None \<Rightarrow> Inr (0, coll)
      | Some d \<Rightarrow>
          if slot (upd d) \<noteq> slot d \<and> list_ex (\<lambda>b. ap_id b \<noteq> i \<and> slot b = slot (upd d)) coll
          then Inl DuplicateKeyError
          else Inr (update_one (\<lambda>a. ap_id a = i) upd coll))"

text \<open>\<^verbatim>\<open>.sort(key, -1)\<close>: descending order of a date field.\<close>

definition sort_desc :: "('a \<Rightarrow> datetime) \<Rightarrow> 'a list \<Rightarrow> 'a list" where
  "sort_desc k xs = sort_key (\<lambda>x. - k x) xs"

text \<open>\<^verbatim>\<open>find_one(filter, sort=[(key, -1)])\<close>: the first document of the sorted matches.\<close>

definition find_one_sorted_desc :: "('a \<Rightarrow> datetime) \<Rightarrow> ('a \<Rightarrow> bool) \<Rightarrow> 'a list \<Rightarrow> 'a option" where
  "find_one_sorted_desc k q coll = (case sort_desc k (filter q coll) of [] \<Rightarrow> None | x # _ \<Rightarrow> Some x)"

definition count_documents :: "('a \<Rightarrow> bool) \<Rightarrow> 'a list \<Rightarrow> nat" where
  "count_documents q coll = length (filter q coll)"

section \<open>Patient profile\<close>

definition get_patient_profile :: "runtime \<Rightarrow> db \<Rightarrow> string \<Rightarrow> error + patient" where
  "get_patient_profile rt st patient_id =
     (case ObjectId rt patient_id of
        None \<Rightarrow> Inl (Exception InvalidId)
      | Some pid \<Rightarrow>
          (case find (\<lambda>p. p_id p = pid) (patients_collection st) of
             None \<Rightarrow> Inl (PatientNotFound patient_id)
           | Some patient \<Rightarrow> Inr patient))"

text \<open>The \<^verbatim>\<open>$set\<close> document of \<^verbatim>\<open>update_patient_profile\<close>: only the truthy arguments.\<close>

definition profile_updates ::
  "datetime \<Rightarrow> string option \<Rightarrow> string option \<Rightarrow> string option \<Rightarrow> string option \<Rightarrow> string option
     \<Rightarrow> patient \<Rightarrow> patient" where
  "profile_updates utcnow email contact address emergency_contact allergies p =
     (let p1 = p\<lparr>p_updated_at := Some utcnow\<rparr>;
          p2 = (if truthy email then p1\<lparr>p_email := email\<rparr> else p1);
          p3 = (if truthy contact then p2\<lparr>p_contact := the contact\<rparr> else p2);
          p4 = (if truthy address then p3\<lparr>p_address := address\<rparr> else p3);
          p5 = (if truthy emergency_contact then p4\<lparr>p_emergency_contact := emergency_contact\<rparr> else p4)
      in (if truthy allergies then p5\<lparr>p_allergies := allergies\<rparr> else p5))"

definition update_patient_profile ::
  "runtime \<Rightarrow> datetime \<Rightarrow> db \<Rightarrow> string \<Rightarrow> string option \<Rightarrow> string option \<Rightarrow> string option
     \<Rightarrow> string option \<Rightarrow> string option \<Rightarrow> (error + patient option) \<times> db" where
  "update_patient_profile rt utcnow st patient_id email contact address emergency_contact allergies =
     (if \<not> (truthy email \<or> truthy contact \<or> truthy address \<or> truthy emergency_contact \<or> truthy allergies)
      then (Inl NoFieldsToUpdate, st)
      else
        (case ObjectId rt patient_id of
           None \<Rightarrow> (Inl (Exception InvalidId), st)
         | Some pid \<Rightarrow>
             (case update_one (\<lambda>p. p_id p = pid)
                     (profile_updates utcnow email contact address emergency_contact allergies)
                     (patients_collection st) of
                (modified_count, coll) \<Rightarrow>
                  if modified_count = 0 then (Inl (PatientNotFound patient_id), st)
                  else (Inr (find (\<lambda>p. p_id p = pid) coll), st\<lparr>patients_collection := coll\<rparr>))))"

section \<open>Doctors\<close>

text \<open>The three optional \<^verbatim>\<open>$regex\<close> conditions of the query, compiled in the source's order.\<close>

definition regex_condition :: "runtime \<Rightarrow> string option \<Rightarrow> (string \<Rightarrow> bool) option" where
  "regex_condition rt pat = (if truthy pat then regex rt (the pat) else Some (\<lambda>s. True))"

definition search_doctors ::
  "runtime \<Rightarrow> db \<Rightarrow> string option \<Rightarrow> string option \<Rightarrow> string option \<Rightarrow> error + doctor list" where
  "search_doctors rt st specialization department name =
     (case regex_condition rt specialization of
        None \<Rightarrow> Inl (Exception OperationFailure)
      | Some ms \<Rightarrow>
     (case regex_condition rt department of
        None \<Rightarrow> Inl (Exception OperationFailure)
      | Some md \<Rightarrow>
     (case regex_condition rt name of
        None \<Rightarrow> Inl (Exception OperationFailure)
      | Some mn \<Rightarrow>
          Inr (take 100 (filter (\<lambda>d. ms (d_specialization d) \<and> md (d_department d) \<and> mn (d_name d))
                           (doctors_collection st))))))"

definition get_doctor_info :: "runtime \<Rightarrow> db \<Rightarrow> string \<Rightarrow> error + doctor" where
  "get_doctor_info rt st doctor_id =
     (case ObjectId rt doctor_id of
        None \<Rightarrow> Inl (Exception InvalidId)
      | Some did \<Rightarrow>
          (case find (\<lambda>d. d_id d = did) (doctors_collection st) of
             None \<Rightarrow> Inl (DoctorNotFound doctor_id)
           | Some doctor \<Rightarrow> Inr doctor))"

section \<open>Appointments\<close>

text \<open>
  \<open>inserted_id\<close> is the \<open>_id\<close> the driver generates for the new document and
  \<open>utcnow\<close> the creation instant.
\<close>

definition book_appointment ::
  "runtime \<Rightarrow> datetime \<Rightarrow> oid \<Rightarrow> db \<Rightarrow> string \<Rightarrow> string \<Rightarrow> string \<Rightarrow> string \<Rightarrow> string
     \<Rightarrow> string option \<Rightarrow> (error + appointment) \<times> db" where
  "book_appointment rt utcnow inserted_id st patient_id doctor_id appointment_date appointment_time
       reason symptoms =
     (case ObjectId rt patient_id of
        None \<Rightarrow> (Inl (Exception InvalidId), st)
      | Some pid \<Rightarrow>
     (case find (\<lambda>p. p_id p = pid) (patients_collection st) of
        None \<Rightarrow> (Inl (PatientNotFound patient_id), st)
      | Some patient \<Rightarrow>
     (case ObjectId rt doctor_id of
        None \<Rightarrow> (Inl (Exception InvalidId), st)
      | Some did \<Rightarrow>
     (case find (\<lambda>d. d_id d = did) (doctors_collection st) of
        None \<Rightarrow> (Inl (DoctorNotFound doctor_id), st)
      | Some doctor \<Rightarrow>
     (case strptime rt (appointment_date @ '' '' @ appointment_time) of
        None \<Rightarrow> (Inl (Exception ValueError), st)
      | Some new_datetime \<Rightarrow>
     (case find (\<lambda>a. ap_doctor_id a = doctor_id \<and> appointment_datetime a = new_datetime
                       \<and> status_in_active a) (appointments_collection st) of
        Some existing \<Rightarrow> (Inl SlotBooked, st)
      | None \<Rightarrow>
          (let appointment_data =
                 \<lparr>ap_id = inserted_id,
                  ap_patient_id = patient_id,
                  ap_patient_name = p_name patient,
                  ap_doctor_id = doctor_id,
                  ap_doctor_name = d_name doctor,
                  appointment_datetime = new_datetime,
                  ap_reason = reason,
                  ap_symptoms = symptoms,
                  ap_status = ''scheduled'',
                  ap_created_at = utcnow,
                  ap_updated_at = None,
                  cancelled_at = None,
                  cancellation_reason = None\<rparr>
           in (case insert_one_appointment appointment_data (appointments_collection st) of
                 Inl e \<Rightarrow> (Inl (Exception e), st)
               | Inr coll \<Rightarrow> (Inr appointment_data, st\<lparr>appointments_collection := coll\<rparr>)))))))))"

definition get_my_appointments ::
  "datetime \<Rightarrow> db \<Rightarrow> string \<Rightarrow> string option \<Rightarrow> bool \<Rightarrow> error + appointment list" where
  "get_my_appointments utcnow st patient_id status upcoming_only =
     Inr (take 100 (sort_key appointment_datetime
       (filter (\<lambda>a. ap_patient_id a = patient_id
                  \<and> (if truthy status then ap_status a = the status else True)
                  \<and> (if upcoming_only then utcnow \<le> appointment_datetime a else True))
          (appointments_collection st))))"

definition reschedule_appointment ::
  "runtime \<Rightarrow> datetime \<Rightarrow> db \<Rightarrow> string \<Rightarrow> string \<Rightarrow> string \<Rightarrow> (error + appointment option) \<times> db" where
  "reschedule_appointment rt utcnow st appointment_id new_date new_time =
     (case ObjectId rt appointment_id of
        None \<Rightarrow> (Inl (Exception InvalidId), st)
      | Some aid \<Rightarrow>
     (case find (\<lambda>a. ap_id a = aid) (appointments_collection st) of
        None \<Rightarrow> (Inl (AppointmentNotFound appointment_id), st)
      | Some appointment \<Rightarrow>
     (case strptime rt (new_date @ '' '' @ new_time) of
        None \<Rightarrow> (Inl (Exception ValueError), st)
      | Some new_datetime \<Rightarrow>
     (case find (\<lambda>a. ap_doctor_id a = ap_doctor_id appointment \<and> appointment_datetime a = new_datetime
                       \<and> status_in_active a \<and> ap_id a \<noteq> aid) (appointments_collection st) of
        Some existing \<Rightarrow> (Inl SlotBooked, st)
      | None \<Rightarrow>
          (case update_one_appointment aid
                  (\<lambda>a. a\<lparr>appointment_datetime := new_datetime, ap_updated_at := Some utcnow\<rparr>)
                  (appointments_collection st) of
             Inl e \<Rightarrow> (Inl (Exception e), st)
           | Inr (modified_count, coll) \<Rightarrow>
               (Inr (find (\<lambda>a. ap_id a = aid) coll), st\<lparr>appointments_collection := coll\<rparr>))))))"

text \<open>
  The two clock readings of \<^verbatim>\<open>cancel_appointment\<close> are \<open>utcnow1\<close> (for
  \<^verbatim>\<open>cancelled_at\<close>) and \<open>utcnow2\<close> (for \<^verbatim>\<open>updated_at\<close>).
\<close>

definition cancel_update :: "datetime \<Rightarrow> datetime \<Rightarrow> string option \<Rightarrow> appointment \<Rightarrow> appointment" where
  "cancel_update utcnow1 utcnow2 reason a =
     (let a1 = a\<lparr>ap_status := ''cancelled'', cancelled_at := Some utcnow1, ap_updated_at := Some utcnow2\<rparr>
      in (if truthy reason then a1\<lparr>cancellation_reason := reason\<rparr> else a1))"

definition cancel_appointment ::
  "runtime \<Rightarrow> datetime \<Rightarrow> datetime \<Rightarrow> db \<Rightarrow> string \<Rightarrow> string option \<Rightarrow> (error + string) \<times> db" where
  "cancel_appointment rt utcnow1 utcnow2 st appointment_id reason =
     (case ObjectId rt appointment_id of
        None \<Rightarrow> (Inl (Exception InvalidId), st)
      | Some aid \<Rightarrow>
          (case update_one_appointment aid (cancel_update utcnow1 utcnow2 reason)
                  (appointments_collection st) of
             Inl e \<Rightarrow> (Inl (Exception e), st)
           | Inr (modified_count, coll) \<Rightarrow>
               if modified_count = 0 then (Inl (AppointmentNotFound appointment_id), st)
               else (Inr appointment_id, st\<lparr>appointments_collection := coll\<rparr>)))"

section \<open>Medical records, prescriptions, lab reports\<close>

text \<open>
  \<^verbatim>\<open>.limit(limit).to_list(length=limit)\<close>: \<^verbatim>\<open>to_list\<close> raises \<^verbatim>\<open>ValueError\<close> on
  a negative length, the BSON encoder raises \<^verbatim>\<open>OverflowError\<close> on an integer beyond
  eight bytes, and otherwise at most \<open>limit\<close> documents come back.
\<close>

definition limit_to_list :: "int \<Rightarrow> 'a list \<Rightarrow> error + 'a list" where
  "limit_to_list limit xs =
     (if limit < 0 then Inl (Exception ValueError)
      else if 2 ^ 63 \<le> limit then Inl (Exception OverflowError)
      else Inr (take (nat limit) xs))"

definition get_medical_history :: "db \<Rightarrow> string \<Rightarrow> int \<Rightarrow> error + medical_record list" where
  "get_medical_history st patient_id limit =
     limit_to_list limit
       (sort_desc visit_date (filter (\<lambda>r. mr_patient_id r = patient_id) (medical_records_collection st)))"

definition get_prescriptions :: "db \<Rightarrow> string \<Rightarrow> bool \<Rightarrow> error + prescription list" where
  "get_prescriptions st patient_id active_only =
     Inr (take 100 (sort_desc prescribed_date
       (filter (\<lambda>r. rx_patient_id r = patient_id \<and> (if active_only then rx_status r = ''active'' else True))
          (prescriptions_collection st))))"

definition get_lab_reports :: "db \<Rightarrow> string \<Rightarrow> int \<Rightarrow> error + lab_report list" where
  "get_lab_reports st patient_id limit =
     limit_to_list limit
       (sort_desc test_date (filter (\<lambda>r. lr_patient_id r = patient_id) (lab_reports_collection st)))"

section \<open>Health tracking\<close>

text \<open>
  \<^verbatim>\<open>timedelta(days=days)\<close> raises \<^verbatim>\<open>OverflowError\<close> beyond 999999999 days, and so
  does the sum when it leaves the years 1 to 9999.
\<close>

definition datetime_min :: datetime where "datetime_min = - 62135596800000"
definition datetime_max :: datetime where "datetime_max = 253402300799999"

definition add_days :: "datetime \<Rightarrow> int \<Rightarrow> datetime option" where
  "add_days start_date days =
     (if 999999999 < \<bar>days\<bar> then None
      else (let end_date = start_date + days * 86400000
            in if end_date < datetime_min \<or> datetime_max < end_date then None else Some end_date))"

definition get_appointment_reminders :: "datetime \<Rightarrow> db \<Rightarrow> string \<Rightarrow> int \<Rightarrow> error + appointment list" where
  "get_appointment_reminders utcnow st patient_id days =
     (case add_days utcnow days of
        None \<Rightarrow> Inl (Exception OverflowError)
      | Some end_date \<Rightarrow>
          Inr (take 100 (sort_key appointment_datetime
            (filter (\<lambda>a. ap_patient_id a = patient_id
                       \<and> utcnow \<le> appointment_datetime a \<and> appointment_datetime a \<le> end_date
                       \<and> status_in_active a)
               (appointments_collection st)))))"

record summary =
  total_visits :: nat
  upcoming_appointments :: nat
  active_prescriptions :: nat
  last_visit :: "medical_record option"
  sm_blood_group :: "string option"
  sm_allergies :: "string option"

definition get_health_summary :: "runtime \<Rightarrow> datetime \<Rightarrow> db \<Rightarrow> string \<Rightarrow> error + string \<times> summary" where
  "get_health_summary rt utcnow st patient_id =
     (case ObjectId rt patient_id of
        None \<Rightarrow> Inl (Exception InvalidId)
      | Some pid \<Rightarrow>
          (case find (\<lambda>p. p_id p = pid) (patients_collection st) of
             None \<Rightarrow> Inl (PatientNotFound patient_id)
           | Some patient \<Rightarrow>
               Inr (p_name patient,
                 \<lparr>total_visits =
                    count_documents (\<lambda>r. mr_patient_id r = patient_id) (medical_records_collection st),
                  upcoming_appointments =
                    count_documents (\<lambda>a. ap_patient_id a = patient_id \<and> utcnow \<le> appointment_datetime a
                                           \<and> status_in_active a) (appointments_collection st),
                  active_prescriptions =
                    count_documents (\<lambda>r. rx_patient_id r = patient_id \<and> rx_status r = ''active'')
                      (prescriptions_collection st),
                  last_visit =
                    find_one_sorted_desc visit_date (\<lambda>r. mr_patient_id r = patient_id)
                      (medical_records_collection st),
                  sm_blood_group = p_blood_group patient,
                  sm_allergies = p_allergies patient\<rparr>)))"

section \<open>Sequences of scheduling calls\<close>

text \<open>
  A scheduling call with the values its execution reads from outside: the clock
  readings and, for a booking, the generated \<open>_id\<close>.
\<close>

datatype call =
    Book datetime oid string string string string string "string option"
  | Reschedule datetime string string string
  | Cancel datetime datetime string "string option"

fun step :: "runtime \<Rightarrow> db \<Rightarrow> call \<Rightarrow> db" where
  "step rt st (Book utcnow inserted_id patient_id doctor_id appointment_date appointment_time reason symptoms) =
     snd (book_appointment rt utcnow inserted_id st patient_id doctor_id appointment_date
            appointment_time reason symptoms)"
| "step rt st (Reschedule utcnow appointment_id new_date new_time) =
     snd (reschedule_appointment rt utcnow st appointment_id new_date new_time)"
| "step rt st (Cancel utcnow1 utcnow2 appointment_id reason) =
     snd (cancel_appointment rt utcnow1 utcnow2 st appointment_id reason)"

fun run :: "runtime \<Rightarrow> db \<Rightarrow> call list \<Rightarrow> db" where
  "run rt st [] = st"
| "run rt st (c # cs) = run rt (step rt st c) cs"

text \<open>The active appointments of doctor \<open>D\<close> at instant \<open>T\<close>.\<close>

definition active_at :: "appointment list \<Rightarrow> string \<Rightarrow> datetime \<Rightarrow> appointment list" where
  "active_at coll D T =
     filter (\<lambda>a. ap_doctor_id a = D \<and> appointment_datetime a = T \<and> status_in_active a) coll"

text \<open>
  What MongoDB guarantees of the appointments collection: the \<open>_id\<close>s are pairwise
  different, and so are the keys of the unique index of \<^verbatim>\<open>init_db.py\<close>.
\<close>

definition indexes_hold :: "appointment list \<Rightarrow> bool" where
  "indexes_hold coll = (distinct (map ap_id coll) \<and> distinct (map slot coll))"

text \<open>
  The same invariant on pairs of documents: two active appointments on one slot are one
  document.
\<close>

definition unique_active :: "appointment list \<Rightarrow> bool" where
  "unique_active coll =
     list_all (\<lambda>a. list_all (\<lambda>b. if status_in_active a \<and> status_in_active b \<and> slot a = slot b
                                    then ap_id a = ap_id b else True) coll) coll"

section \<open>A sample runtime and sample documents\<close>

text \<open>
  Concrete values on which the operations are evaluated: an \<open>ObjectId\<close> that accepts
  the 24-character strings of lower-case hexadecimal digits, a \<open>strptime\<close> that knows
  two instants (2025-03-10 09:00 and 2025-03-11 10:00 UTC, in milliseconds), and a
  \<open>regex\<close> that matches a subject equal to the pattern.
\<close>

definition hexdigit :: "char \<Rightarrow> bool" where
  "hexdigit c = (c \<in> set ''0123456789abcdef'')"

definition sample_runtime :: runtime where
  "sample_runtime =
     \<lparr>ObjectId = (\<lambda>s. if length s = 24 \<and> list_all hexdigit s then Some s else None),
      strptime = (\<lambda>s. if s = ''2025-03-10 09:00'' then Some 1741597200000
                       else if s = ''2025-03-11 10:00'' then Some 1741687200000 else None),
      regex = (\<lambda>pat. Some (\<lambda>s. s = pat))\<rparr>"

definition sample_patient :: patient where
  "sample_patient =
     \<lparr>p_id = ''65f000000000000000000001'', p_name = ''John Doe'', p_age = 35, p_gender = ''Male'',
      p_contact = ''+1-555-1001'', p_email = Some ''john.doe@email.com'', p_address = None,
      p_blood_group = Some ''O+'', p_emergency_contact = None, p_allergies = Some ''Penicillin'',
      p_created_at = None, p_updated_at = None\<rparr>"

definition sample_doctor :: doctor where
  "sample_doctor =
     \<lparr>d_id = ''65f0000000000000000000d1'', d_name = ''Dr. Sarah Johnson'',
      d_specialization = ''Cardiology'', d_qualification = ''MD, FACC'', d_contact = ''+1-555-0101'',
      d_email = ''sarah.johnson@hospital.com'', d_department = ''Cardiology'',
      d_experience_years = 15\<rparr>"

text \<open>An appointment of the sample patient with the sample doctor on 2025-03-10 at 09:00.\<close>

definition sample_appointment :: "string \<Rightarrow> appointment" where
  "sample_appointment status =
     \<lparr>ap_id = ''65f0000000000000000000a1'', ap_patient_id = ''65f000000000000000000001'',
      ap_patient_name = ''John Doe'', ap_doctor_id = ''65f0000000000000000000d1'',
      ap_doctor_name = ''Dr. Sarah Johnson'', appointment_datetime = 1741597200000,
      ap_reason = ''checkup'', ap_symptoms = None, ap_status = status,
      ap_created_at = 1741000000000, ap_updated_at = None, cancelled_at = None,
      cancellation_reason = None\<rparr>"

definition sample_db :: "appointment list \<Rightarrow> db" where
  "sample_db coll =
     \<lparr>patients_collection = [sample_patient], doctors_collection = [sample_doctor],
      appointments_collection = coll, medical_records_collection = [],
      prescriptions_collection = [], lab_reports_collection = []\<rparr>"

section \<open>Evaluation and store lemmas\<close>

lemmas sample_defs = sample_runtime_def sample_db_def sample_appointment_def sample_patient_def
  sample_doctor_def hexdigit_def

lemmas store_defs = update_one_appointment_def update_one_def insert_one_appointment_def slot_def
  status_in_active_def cancel_update_def

lemma find_replace_first:
  "find q xs = Some d \<Longrightarrow> q (upd d) \<Longrightarrow> find q (replace_first q upd xs) = Some (upd d)"
  by (induction xs) (auto split: if_splits)

lemma replace_first_same:
  "find q xs = Some d \<Longrightarrow> upd d = d \<Longrightarrow> replace_first q upd xs = xs"
  by (induction xs) (auto split: if_splits)

lemma find_Some_mem: "find q xs = Some d \<Longrightarrow> d \<in> set xs \<and> q d"
  by (induction xs) (auto split: if_splits)

lemma update_one_appointment_same_slot:
  assumes "find (\<lambda>b. ap_id b = aid) coll = Some a" and "slot (upd a) = slot a"
  shows "update_one_appointment aid upd coll
           = Inr (if upd a = a then 0 else 1, replace_first (\<lambda>b. ap_id b = aid) upd coll)"
  using assms by (simp add: update_one_appointment_def update_one_def replace_first_same)

lemma update_one_appointment_cases:
  assumes "find (\<lambda>b. ap_id b = aid) coll = Some a"
  shows "update_one_appointment aid upd coll = Inl DuplicateKeyError
       \<or> update_one_appointment aid upd coll
           = Inr (if upd a = a then 0 else 1, replace_first (\<lambda>b. ap_id b = aid) upd coll)"
  using assms by (simp add: update_one_appointment_def update_one_def replace_first_same)

lemma cancel_update_fixed:
  "(cancel_update t1 t2 reason a = a) =
     (ap_status a = ''cancelled'' \<and> cancelled_at a = Some t1 \<and> ap_updated_at a = Some t2
      \<and> (if truthy reason then cancellation_reason a = reason else True))"
  by (cases a) (auto simp: cancel_update_def Let_def)

section \<open>Profile updates and the appointments\<close>

text \<open>
  Claim C9. Whatever the state and the arguments, \<open>update_patient_profile\<close> leaves
  the appointments collection as it was: every appointment document, and with it the
  patient and doctor names copied at booking time, is unchanged by a profile update.
\<close>

theorem update_patient_profile_keeps_appointments:
  "appointments_collection (snd (update_patient_profile rt utcnow st patient_id email contact address
      emergency_contact allergy_text)) = appointments_collection st"
  by (simp add: update_patient_profile_def split: option.splits prod.splits)

theorem update_patient_profile_keeps_appointments_witness:
  "fst (update_patient_profile sample_runtime 1741600000000 (sample_db [sample_appointment ''scheduled''])
      ''65f000000000000000000001'' (Some ''jd@email.com'') None None None None)
     = Inr (Some (sample_patient\<lparr>p_email := Some ''jd@email.com'', p_updated_at := Some 1741600000000\<rparr>))
   \<and> appointments_collection (snd (update_patient_profile sample_runtime 1741600000000
      (sample_db [sample_appointment ''scheduled''])
      ''65f000000000000000000001'' (Some ''jd@email.com'') None None None None))
     = [sample_appointment ''scheduled'']"
  using update_patient_profile_keeps_appointments [of sample_runtime 1741600000000
      "sample_db [sample_appointment ''scheduled'']" "''65f000000000000000000001''"
      "Some ''jd@email.com''" None None None None]
  by (simp add: update_patient_profile_def profile_updates_def update_one_def sample_defs)

section \<open>Booking\<close>

text \<open>
  Claim C3. When the patient and the doctor resolve, the date and time parse to the
  instant \<open>T\<close>, and the store holds an appointment of that \<open>doctor_id\<close> at \<open>T\<close>
  whose status is scheduled or confirmed, \<open>book_appointment\<close> answers with the
  slot-conflict error and returns the store it was given: nothing is written, so the
  appointments of that doctor at that instant are the ones there were.
\<close>

theorem book_appointment_slot_conflict:
  assumes "ObjectId rt patient_id = Some pid" and "pid \<in> p_id ` set (patients_collection st)"
    and "ObjectId rt doctor_id = Some did" and "did \<in> d_id ` set (doctors_collection st)"
    and "strptime rt (appointment_date @ '' '' @ appointment_time) = Some T"
    and "a \<in> set (appointments_collection st)"
    and "ap_doctor_id a = doctor_id" and "appointment_datetime a = T"
    and "ap_status a = ''scheduled'' \<or> ap_status a = ''confirmed''"
  shows "book_appointment rt utcnow inserted_id st patient_id doctor_id appointment_date
           appointment_time reason symptoms = (Inl SlotBooked, st)"
proof -
  obtain patient where p: "find (\<lambda>p. p_id p = pid) (patients_collection st) = Some patient"
    using assms(2) by (cases "find (\<lambda>p. p_id p = pid) (patients_collection st)") (auto simp: find_None_iff)
  obtain doctor where d: "find (\<lambda>d. d_id d = did) (doctors_collection st) = Some doctor"
    using assms(4) by (cases "find (\<lambda>d. d_id d = did) (doctors_collection st)") (auto simp: find_None_iff)
  obtain existing where e: "find (\<lambda>a. ap_doctor_id a = doctor_id \<and> appointment_datetime a = T
      \<and> status_in_active a) (appointments_collection st) = Some existing"
    using assms(6-9)
    by (cases "find (\<lambda>a. ap_doctor_id a = doctor_id \<and> appointment_datetime a = T
      \<and> status_in_active a) (appointments_collection st)") (auto simp: find_None_iff status_in_active_def)
  show ?thesis
    using assms(1,3,5) p d e by (simp add: book_appointment_def)
qed

theorem book_appointment_slot_conflict_witness:
  "book_appointment sample_runtime 1741600000000 ''65f0000000000000000000a2''
     (sample_db [sample_appointment ''scheduled'']) ''65f000000000000000000001''
     ''65f0000000000000000000d1'' ''2025-03-10'' ''09:00'' ''second opinion'' None
   = (Inl SlotBooked, sample_db [sample_appointment ''scheduled''])"
  by (rule book_appointment_slot_conflict [where pid = "''65f000000000000000000001''"
        and did = "''65f0000000000000000000d1''" and T = 1741597200000
        and a = "sample_appointment ''scheduled''"])
     (simp_all add: sample_defs)

section \<open>Booking a slot whose only appointment is cancelled\<close>

text \<open>
  Claim C4, evaluated on the store that \<^verbatim>\<open>init_db.py\<close> sets up. The sample patient
  books the sample doctor for 2025-03-10 09:00 and cancels; the store then holds one
  appointment for that doctor and instant, with status cancelled. A new booking of the
  same doctor and instant passes the conflict check of \<open>book_appointment\<close>, which
  looks at scheduled and confirmed appointments only, and is then refused by the unique
  index on \<open>(doctor_id, appointment_datetime)\<close>, which covers every status: the call
  returns the duplicate-key exception's text and writes nothing.
\<close>

theorem book_appointment_cancelled_slot_duplicate_key:
  "run sample_runtime (sample_db [])
     [Book 1741000000000 ''65f0000000000000000000a1'' ''65f000000000000000000001''
        ''65f0000000000000000000d1'' ''2025-03-10'' ''09:00'' ''checkup'' None,
      Cancel 1741100000000 1741100000001 ''65f0000000000000000000a1'' None]
   = sample_db [(sample_appointment ''cancelled'')
        \<lparr>ap_updated_at := Some 1741100000001, cancelled_at := Some 1741100000000\<rparr>]
   \<and> book_appointment sample_runtime 1741600000000 ''65f0000000000000000000a2''
       (sample_db [(sample_appointment ''cancelled'')
          \<lparr>ap_updated_at := Some 1741100000001, cancelled_at := Some 1741100000000\<rparr>])
       ''65f000000000000000000001'' ''65f0000000000000000000d1'' ''2025-03-10'' ''09:00''
       ''checkup'' None
     = (Inl (Exception DuplicateKeyError),
        sample_db [(sample_appointment ''cancelled'')
          \<lparr>ap_updated_at := Some 1741100000001, cancelled_at := Some 1741100000000\<rparr>])"
  by (simp add: book_appointment_def cancel_appointment_def sample_defs store_defs Let_def)

section \<open>Reschedule and cancel on a terminal appointment\<close>

text \<open>
  Claim C1 as stated fails: rescheduling a cancelled appointment succeeds and moves its
  \<open>appointment_datetime\<close>, and cancelling a completed appointment succeeds and
  turns its status into cancelled.
\<close>

theorem terminal_appointment_mutated_counterexample:
  "reschedule_appointment sample_runtime 1741600000000 (sample_db [sample_appointment ''cancelled''])
     ''65f0000000000000000000a1'' ''2025-03-11'' ''10:00''
   = (Inr (Some ((sample_appointment ''cancelled'')
         \<lparr>appointment_datetime := 1741687200000, ap_updated_at := Some 1741600000000\<rparr>)),
      sample_db [(sample_appointment ''cancelled'')
         \<lparr>appointment_datetime := 1741687200000, ap_updated_at := Some 1741600000000\<rparr>])
   \<and> appointment_datetime (sample_appointment ''cancelled'') = 1741597200000
   \<and> cancel_appointment sample_runtime 1741600000000 1741600000001
       (sample_db [sample_appointment ''completed'']) ''65f0000000000000000000a1'' None
     = (Inr ''65f0000000000000000000a1'',
        sample_db [(sample_appointment ''cancelled'')
         \<lparr>ap_updated_at := Some 1741600000001, cancelled_at := Some 1741600000000\<rparr>])"
  by (simp add: reschedule_appointment_def cancel_appointment_def sample_defs store_defs)

text \<open>
  Claim C1, amended. Neither operation looks at the status. On an appointment whose
  status is completed or cancelled, each of them leaves the store unchanged when it
  fails. A successful reschedule overwrites \<open>appointment_datetime\<close> and
  \<open>updated_at\<close> of that document and nothing else, so the status stays what it was;
  a successful cancel sets the status to cancelled, overwrites \<open>cancelled_at\<close> and
  \<open>updated_at\<close>, stores a non-empty reason, and leaves every other field and every
  other document unchanged.
\<close>

theorem terminal_reschedule_cancel_effect:
  assumes "ObjectId rt appointment_id = Some aid"
    and "find (\<lambda>b. ap_id b = aid) (appointments_collection st) = Some a"
    and "ap_status a = ''completed'' \<or> ap_status a = ''cancelled''"
  shows "(case reschedule_appointment rt utcnow st appointment_id new_date new_time of
            (Inl e, st') \<Rightarrow> st' = st
          | (Inr r, st') \<Rightarrow>
              (\<exists>T. strptime rt (new_date @ '' '' @ new_time) = Some T
                 \<and> r = Some (a\<lparr>appointment_datetime := T, ap_updated_at := Some utcnow\<rparr>)
                 \<and> st' = st\<lparr>appointments_collection :=
                      replace_first (\<lambda>b. ap_id b = aid)
                        (\<lambda>b. b\<lparr>appointment_datetime := T, ap_updated_at := Some utcnow\<rparr>)
                        (appointments_collection st)\<rparr>))
       \<and> (case cancel_appointment rt utcnow1 utcnow2 st appointment_id reason of
            (Inl e, st') \<Rightarrow> st' = st
          | (Inr r, st') \<Rightarrow>
              st' = st\<lparr>appointments_collection :=
                      replace_first (\<lambda>b. ap_id b = aid)
                        (\<lambda>b. b\<lparr>ap_status := ''cancelled'', cancelled_at := Some utcnow1,
                               ap_updated_at := Some utcnow2,
                               cancellation_reason :=
                                 (if truthy reason then reason else cancellation_reason b)\<rparr>)
                        (appointments_collection st)\<rparr>)"
proof
  have i: "ap_id a = aid" using find_Some_mem [OF assms(2)] by simp
  show "case reschedule_appointment rt utcnow st appointment_id new_date new_time of
            (Inl e, st') \<Rightarrow> st' = st
          | (Inr r, st') \<Rightarrow>
              (\<exists>T. strptime rt (new_date @ '' '' @ new_time) = Some T
                 \<and> r = Some (a\<lparr>appointment_datetime := T, ap_updated_at := Some utcnow\<rparr>)
                 \<and> st' = st\<lparr>appointments_collection :=
                      replace_first (\<lambda>b. ap_id b = aid)
                        (\<lambda>b. b\<lparr>appointment_datetime := T, ap_updated_at := Some utcnow\<rparr>)
                        (appointments_collection st)\<rparr>)"
  proof (cases "strptime rt (new_date @ '' '' @ new_time)")
    case None
    then show ?thesis using assms(1,2) by (simp add: reschedule_appointment_def)
  next
    case (Some T)
    let ?upd = "\<lambda>b. b\<lparr>appointment_datetime := T, ap_updated_at := Some utcnow\<rparr>"
    have f: "find (\<lambda>b. ap_id b = aid) (replace_first (\<lambda>b. ap_id b = aid) ?upd (appointments_collection st))
               = Some (?upd a)"
      using find_replace_first [where q = "\<lambda>b. ap_id b = aid" and upd = ?upd, OF assms(2)] i by simp
    from update_one_appointment_cases [OF assms(2), of ?upd] f Some assms(1,2)
    show ?thesis
      by (auto simp: reschedule_appointment_def split: option.splits)
  qed
next
  have u: "cancel_update utcnow1 utcnow2 reason =
             (\<lambda>b. b\<lparr>ap_status := ''cancelled'', cancelled_at := Some utcnow1,
                     ap_updated_at := Some utcnow2,
                     cancellation_reason := (if truthy reason then reason else cancellation_reason b)\<rparr>)"
    by (rule ext) (simp add: cancel_update_def Let_def)
  from update_one_appointment_cases [OF assms(2), of "cancel_update utcnow1 utcnow2 reason"] assms(1)
  show "case cancel_appointment rt utcnow1 utcnow2 st appointment_id reason of
            (Inl e, st') \<Rightarrow> st' = st
          | (Inr r, st') \<Rightarrow>
              st' = st\<lparr>appointments_collection :=
                      replace_first (\<lambda>b. ap_id b = aid)
                        (\<lambda>b. b\<lparr>ap_status := ''cancelled'', cancelled_at := Some utcnow1,
                               ap_updated_at := Some utcnow2,
                               cancellation_reason :=
                                 (if truthy reason then reason else cancellation_reason b)\<rparr>)
                        (appointments_collection st)\<rparr>"
    unfolding u [symmetric] by (auto simp: cancel_appointment_def split: if_splits)
qed

theorem terminal_reschedule_cancel_effect_witness:
  "reschedule_appointment sample_runtime 1741600000000 (sample_db [sample_appointment ''completed''])
     ''65f0000000000000000000a1'' ''2025-03-11'' ''10:00''
   = (Inr (Some ((sample_appointment ''completed'')
         \<lparr>appointment_datetime := 1741687200000, ap_updated_at := Some 1741600000000\<rparr>)),
      sample_db [(sample_appointment ''completed'')
         \<lparr>appointment_datetime := 1741687200000, ap_updated_at := Some 1741600000000\<rparr>])
   \<and> cancel_appointment sample_runtime 1741600000000 1741600000001
       (sample_db [sample_appointment ''completed'']) ''65f0000000000000000000a1'' (Some ''no show'')
     = (Inr ''65f0000000000000000000a1'',
        sample_db [(sample_appointment ''cancelled'')
         \<lparr>ap_updated_at := Some 1741600000001, cancelled_at := Some 1741600000000,
           cancellation_reason := Some ''no show''\<rparr>])"
  using terminal_reschedule_cancel_effect [where rt = sample_runtime
      and appointment_id = "''65f0000000000000000000a1''" and aid = "''65f0000000000000000000a1''"
      and st = "sample_db [sample_appointment ''completed'']"
      and a = "sample_appointment ''completed''" and utcnow = 1741600000000
      and new_date = "''2025-03-11''" and new_time = "''10:00''"
      and ?utcnow1.0 = 1741600000000 and ?utcnow2.0 = 1741600000001 and reason = "Some ''no show''"]
  by (simp add: reschedule_appointment_def cancel_appointment_def sample_defs store_defs)

section \<open>Cancelling twice\<close>

text \<open>
  Claim C2 as stated fails: a second cancellation at a later instant reports success
  again, because the \<^verbatim>\<open>$set\<close> carries fresh timestamps and so modifies the document.
\<close>

theorem second_cancel_reports_success_counterexample:
  "cancel_appointment sample_runtime 1741100000000 1741100000001
       (sample_db [sample_appointment ''scheduled'']) ''65f0000000000000000000a1'' None
     = (Inr ''65f0000000000000000000a1'',
        sample_db [(sample_appointment ''cancelled'')
         \<lparr>ap_updated_at := Some 1741100000001, cancelled_at := Some 1741100000000\<rparr>])
   \<and> cancel_appointment sample_runtime 1741200000000 1741200000001
       (sample_db [(sample_appointment ''cancelled'')
         \<lparr>ap_updated_at := Some 1741100000001, cancelled_at := Some 1741100000000\<rparr>])
       ''65f0000000000000000000a1'' None
     = (Inr ''65f0000000000000000000a1'',
        sample_db [(sample_appointment ''cancelled'')
         \<lparr>ap_updated_at := Some 1741200000001, cancelled_at := Some 1741200000000\<rparr>])"
  by (simp add: cancel_appointment_def sample_defs store_defs)

text \<open>
  Claim C2, amended. For an appointment already cancelled, \<open>cancel_appointment\<close>
  leaves the status cancelled. It reports that nothing was modified (the not-found
  error) exactly when its \<^verbatim>\<open>$set\<close> leaves the document identical: \<open>cancelled_at\<close>
  and \<open>updated_at\<close> already hold the two clock readings of the call and a non-empty
  reason equals the stored one. Otherwise it reports success again and overwrites
  those fields.
\<close>

theorem second_cancel:
  assumes "ObjectId rt appointment_id = Some aid"
    and "find (\<lambda>b. ap_id b = aid) (appointments_collection st) = Some a"
    and "ap_status a = ''cancelled''"
  shows "cancel_appointment rt utcnow1 utcnow2 st appointment_id reason =
           (if cancelled_at a = Some utcnow1 \<and> ap_updated_at a = Some utcnow2
                \<and> (if truthy reason then cancellation_reason a = reason else True)
            then (Inl (AppointmentNotFound appointment_id), st)
            else (Inr appointment_id,
                  st\<lparr>appointments_collection :=
                       replace_first (\<lambda>b. ap_id b = aid) (cancel_update utcnow1 utcnow2 reason)
                         (appointments_collection st)\<rparr>))
         \<and> map_option ap_status (find (\<lambda>b. ap_id b = aid)
              (appointments_collection (snd (cancel_appointment rt utcnow1 utcnow2 st appointment_id reason))))
            = Some ''cancelled''"
proof -
  have s: "slot (cancel_update utcnow1 utcnow2 reason a) = slot a"
    by (simp add: cancel_update_def slot_def Let_def)
  have i: "ap_id (cancel_update utcnow1 utcnow2 reason a) = aid"
    using find_Some_mem [OF assms(2)] by (simp add: cancel_update_def Let_def)
  have c: "ap_status (cancel_update utcnow1 utcnow2 reason a) = ''cancelled''"
    by (simp add: cancel_update_def Let_def)
  note u = update_one_appointment_same_slot
    [where upd = "cancel_update utcnow1 utcnow2 reason", OF assms(2) s]
  note f = find_replace_first
    [where upd = "cancel_update utcnow1 utcnow2 reason" and q = "\<lambda>b. ap_id b = aid", OF assms(2) i]
  show ?thesis
    using assms(1,3) by (simp add: cancel_appointment_def u cancel_update_fixed f c assms(2))
qed

theorem second_cancel_witness:
  "cancel_appointment sample_runtime 1741200000000 1741200000001
       (sample_db [(sample_appointment ''cancelled'')
         \<lparr>ap_updated_at := Some 1741100000001, cancelled_at := Some 1741100000000\<rparr>])
       ''65f0000000000000000000a1'' None
     = (Inr ''65f0000000000000000000a1'',
        sample_db [(sample_appointment ''cancelled'')
         \<lparr>ap_updated_at := Some 1741200000001, cancelled_at := Some 1741200000000\<rparr>])
   \<and> cancel_appointment sample_runtime 1741100000000 1741100000001
       (sample_db [(sample_appointment ''cancelled'')
         \<lparr>ap_updated_at := Some 1741100000001, cancelled_at := Some 1741100000000\<rparr>])
       ''65f0000000000000000000a1'' None
     = (Inl (AppointmentNotFound ''65f0000000000000000000a1''),
        sample_db [(sample_appointment ''cancelled'')
         \<lparr>ap_updated_at := Some 1741100000001, cancelled_at := Some 1741100000000\<rparr>])"
  using second_cancel [where rt = sample_runtime
      and appointment_id = "''65f0000000000000000000a1''" and aid = "''65f0000000000000000000a1''"
      and st = "sample_db [(sample_appointment ''cancelled'')
         \<lparr>ap_updated_at := Some 1741100000001, cancelled_at := Some 1741100000000\<rparr>]"
      and a = "(sample_appointment ''cancelled'')
         \<lparr>ap_updated_at := Some 1741100000001, cancelled_at := Some 1741100000000\<rparr>"
      and ?utcnow1.0 = 1741200000000 and ?utcnow2.0 = 1741200000001 and reason = None]
  by (simp add: cancel_appointment_def sample_defs store_defs)

section \<open>No double booking\<close>

text \<open>
  The invariant is carried through the three scheduling operations on pairs of
  documents (\<open>unique_active\<close>), together with the uniqueness of the \<open>_id\<close>s.
\<close>

lemma unique_active_iff:
  "unique_active coll = (\<forall>a\<in>set coll. \<forall>b\<in>set coll.
       status_in_active a \<and> status_in_active b \<and> slot a = slot b \<longrightarrow> ap_id a = ap_id b)"
  by (auto simp: unique_active_def list_all_iff)

lemma length_filter_le_1_iff:
  "distinct (map f xs) \<Longrightarrow>
     (length (filter P xs) \<le> 1) = (\<forall>a\<in>set xs. \<forall>b\<in>set xs. P a \<and> P b \<longrightarrow> f a = f b)"
proof (induction xs)
  case Nil
  then show ?case by simp
next
  case (Cons x xs)
  show ?case
  proof (cases "P x")
    case True
    have "(length (filter P (x # xs)) \<le> 1) = (filter P xs = [])"
      using True by simp
    also have "\<dots> = (\<forall>b\<in>set xs. \<not> P b)"
      by (simp add: filter_empty_conv)
    also have "\<dots> = (\<forall>a\<in>set (x # xs). \<forall>b\<in>set (x # xs). P a \<and> P b \<longrightarrow> f a = f b)"
      using True Cons.prems by (auto simp: image_iff)
    finally show ?thesis .
  next
    case False
    then show ?thesis using Cons by auto
  qed
qed

lemma no_double_booking_iff:
  assumes "distinct (map ap_id coll)"
  shows "(\<forall>D T. length (active_at coll D T) \<le> 1) = unique_active coll"
proof -
  have e: "(length (active_at coll D T) \<le> 1) =
        (\<forall>a\<in>set coll. \<forall>b\<in>set coll.
           (ap_doctor_id a = D \<and> appointment_datetime a = T \<and> status_in_active a)
         \<and> (ap_doctor_id b = D \<and> appointment_datetime b = T \<and> status_in_active b)
           \<longrightarrow> ap_id a = ap_id b)" for D T
    unfolding active_at_def by (rule length_filter_le_1_iff [OF assms])
  show ?thesis
  proof
    assume h: "\<forall>D T. length (active_at coll D T) \<le> 1"
    show "unique_active coll"
      unfolding unique_active_iff
    proof (intro ballI impI)
      fix a b
      assume ab: "a \<in> set coll" "b \<in> set coll"
        and act: "status_in_active a \<and> status_in_active b \<and> slot a = slot b"
      have "length (active_at coll (ap_doctor_id a) (appointment_datetime a)) \<le> 1"
        using h by blast
      moreover have "ap_doctor_id b = ap_doctor_id a" "appointment_datetime b = appointment_datetime a"
        using act by (simp_all add: slot_def)
      ultimately show "ap_id a = ap_id b"
        unfolding e using ab act by blast
    qed
  next
    assume u: "unique_active coll"
    show "\<forall>D T. length (active_at coll D T) \<le> 1"
      unfolding e
    proof (intro allI ballI impI)
      fix D T a b
      assume "a \<in> set coll" "b \<in> set coll"
        and "(ap_doctor_id a = D \<and> appointment_datetime a = T \<and> status_in_active a)
           \<and> (ap_doctor_id b = D \<and> appointment_datetime b = T \<and> status_in_active b)"
      moreover from this have "slot a = slot b" by (simp add: slot_def)
      ultimately show "ap_id a = ap_id b"
        using u unfolding unique_active_iff by blast
    qed
  qed
qed

lemma set_replace_first:
  assumes "distinct (map ap_id xs)" and "find (\<lambda>b. ap_id b = aid) xs = Some a"
  shows "set (replace_first (\<lambda>b. ap_id b = aid) upd xs) = insert (upd a) {b \<in> set xs. ap_id b \<noteq> aid}"
  using assms
proof (induction xs)
  case Nil
  then show ?case by simp
next
  case (Cons x xs)
  show ?case
  proof (cases "ap_id x = aid")
    case True
    then have "a = x" using Cons.prems(2) by simp
    moreover have "{b \<in> set xs. ap_id b \<noteq> aid} = set xs"
      using Cons.prems(1) True by (auto simp: image_iff)
    ultimately show ?thesis using True by auto
  next
    case False
    then show ?thesis using Cons by auto
  qed
qed

lemma map_ap_id_replace_first:
  "(\<And>b. ap_id (upd b) = ap_id b) \<Longrightarrow> map ap_id (replace_first q upd xs) = map ap_id xs"
  by (induction xs) auto

lemma store_inv_replace_first:
  assumes inv: "distinct (map ap_id coll)" "unique_active coll"
    and f: "find (\<lambda>b. ap_id b = aid) coll = Some a"
    and i: "\<And>b. ap_id (upd b) = ap_id b"
    and c: "\<And>b. b \<in> set coll \<Longrightarrow> ap_id b \<noteq> aid \<Longrightarrow> status_in_active b \<Longrightarrow>
              status_in_active (upd a) \<Longrightarrow> slot b \<noteq> slot (upd a)"
  shows "distinct (map ap_id (replace_first (\<lambda>b. ap_id b = aid) upd coll))
       \<and> unique_active (replace_first (\<lambda>b. ap_id b = aid) upd coll)"
proof
  show "distinct (map ap_id (replace_first (\<lambda>b. ap_id b = aid) upd coll))"
    using inv(1) by (simp add: map_ap_id_replace_first [OF i])
next
  have ia: "ap_id (upd a) = aid" using find_Some_mem [OF f] i by simp
  show "unique_active (replace_first (\<lambda>b. ap_id b = aid) upd coll)"
    unfolding unique_active_iff set_replace_first [OF inv(1) f]
  proof (intro ballI impI)
    fix x y
    assume x: "x \<in> insert (upd a) {b \<in> set coll. ap_id b \<noteq> aid}"
      and y: "y \<in> insert (upd a) {b \<in> set coll. ap_id b \<noteq> aid}"
      and h: "status_in_active x \<and> status_in_active y \<and> slot x = slot y"
    consider "x = upd a" "y = upd a"
      | "x = upd a" "y \<in> set coll" "ap_id y \<noteq> aid"
      | "y = upd a" "x \<in> set coll" "ap_id x \<noteq> aid"
      | "x \<in> set coll" "y \<in> set coll"
      using x y by auto
    then show "ap_id x = ap_id y"
    proof cases
      case 1
      then show ?thesis by simp
    next
      case 2
      then show ?thesis using c [of y] h by auto
    next
      case 3
      then show ?thesis using c [of x] h by auto
    next
      case 4
      then show ?thesis using inv(2) h unfolding unique_active_iff by blast
    qed
  qed
qed


lemma store_inv_append:
  assumes inv: "distinct (map ap_id coll)" "unique_active coll"
    and i: "ap_id d \<notin> ap_id ` set coll"
    and c: "slot d \<notin> slot ` set coll"
  shows "distinct (map ap_id (coll @ [d])) \<and> unique_active (coll @ [d])"
proof
  show "distinct (map ap_id (coll @ [d]))" using inv(1) i by simp
next
  show "unique_active (coll @ [d])"
    unfolding unique_active_iff
  proof (intro ballI impI)
    fix x y
    assume x: "x \<in> set (coll @ [d])" and y: "y \<in> set (coll @ [d])"
      and h: "status_in_active x \<and> status_in_active y \<and> slot x = slot y"
    consider "x = d" "y = d" | "x = d" "y \<in> set coll" | "y = d" "x \<in> set coll"
      | "x \<in> set coll" "y \<in> set coll"
      using x y by auto
    then show "ap_id x = ap_id y"
    proof cases
      case 1
      then show ?thesis by simp
    next
      case 2
      then show ?thesis using c h by (metis imageI)
    next
      case 3
      then show ?thesis using c h by (metis imageI)
    next
      case 4
      then show ?thesis using inv(2) h unfolding unique_active_iff by blast
    qed
  qed
qed

lemma insert_one_appointment_cases:
  "insert_one_appointment d coll = Inl DuplicateKeyError
   \<or> (insert_one_appointment d coll = Inr (coll @ [d])
      \<and> ap_id d \<notin> ap_id ` set coll \<and> slot d \<notin> slot ` set coll)"
  by (auto simp: insert_one_appointment_def list_ex_iff image_iff)

lemma book_appointment_inv:
  assumes "distinct (map ap_id (appointments_collection st))"
    and "unique_active (appointments_collection st)"
  shows "distinct (map ap_id (appointments_collection (snd (book_appointment rt utcnow inserted_id st
            patient_id doctor_id appointment_date appointment_time reason symptoms))))
       \<and> unique_active (appointments_collection (snd (book_appointment rt utcnow inserted_id st
            patient_id doctor_id appointment_date appointment_time reason symptoms)))"
proof (cases "ObjectId rt patient_id")
  case None
  then show ?thesis using assms by (simp add: book_appointment_def)
next
  case (Some pid)
  note p1 = this
  show ?thesis
  proof (cases "find (\<lambda>p. p_id p = pid) (patients_collection st)")
    case None
    then show ?thesis using assms p1 by (simp add: book_appointment_def)
  next
    case (Some patient)
    note p2 = this
    show ?thesis
    proof (cases "ObjectId rt doctor_id")
      case None
      then show ?thesis using assms p1 p2 by (simp add: book_appointment_def)
    next
      case (Some did)
      note d1 = this
      show ?thesis
      proof (cases "find (\<lambda>d. d_id d = did) (doctors_collection st)")
        case None
        then show ?thesis using assms p1 p2 d1 by (simp add: book_appointment_def)
      next
        case (Some doctor)
        note d2 = this
        show ?thesis
        proof (cases "strptime rt (appointment_date @ '' '' @ appointment_time)")
          case None
          then show ?thesis using assms p1 p2 d1 d2 by (simp add: book_appointment_def)
        next
          case (Some T)
          note tm = this
          show ?thesis
          proof (cases "find (\<lambda>a. ap_doctor_id a = doctor_id \<and> appointment_datetime a = T
                       \<and> status_in_active a) (appointments_collection st)")
            case (Some existing)
            then show ?thesis using assms p1 p2 d1 d2 tm by (simp add: book_appointment_def)
          next
            case None
            note free = this
            let ?doc = "\<lparr>ap_id = inserted_id, ap_patient_id = patient_id,
                  ap_patient_name = p_name patient, ap_doctor_id = doctor_id,
                  ap_doctor_name = d_name doctor, appointment_datetime = T,
                  ap_reason = reason, ap_symptoms = symptoms, ap_status = ''scheduled'',
                  ap_created_at = utcnow, ap_updated_at = None, cancelled_at = None,
                  cancellation_reason = None\<rparr>"
            from insert_one_appointment_cases [of ?doc "appointments_collection st"]
            show ?thesis
            proof (elim disjE conjE)
              assume "insert_one_appointment ?doc (appointments_collection st) = Inl DuplicateKeyError"
              then show ?thesis using assms p1 p2 d1 d2 tm free
                by (simp add: book_appointment_def Let_def)
            next
              assume e: "insert_one_appointment ?doc (appointments_collection st)
                           = Inr (appointments_collection st @ [?doc])"
                and i: "ap_id ?doc \<notin> ap_id ` set (appointments_collection st)"
                and c: "slot ?doc \<notin> slot ` set (appointments_collection st)"
              have "appointments_collection (snd (book_appointment rt utcnow inserted_id st
                      patient_id doctor_id appointment_date appointment_time reason symptoms))
                    = appointments_collection st @ [?doc]"
                using p1 p2 d1 d2 tm free e by (simp add: book_appointment_def Let_def)
              then show ?thesis using store_inv_append [OF assms i c] by simp
            qed
          qed
        qed
      qed
    qed
  qed
qed

lemma reschedule_appointment_inv:
  assumes "distinct (map ap_id (appointments_collection st))"
    and "unique_active (appointments_collection st)"
  shows "distinct (map ap_id (appointments_collection
            (snd (reschedule_appointment rt utcnow st appointment_id new_date new_time))))
       \<and> unique_active (appointments_collection
            (snd (reschedule_appointment rt utcnow st appointment_id new_date new_time)))"
proof (cases "ObjectId rt appointment_id")
  case None
  then show ?thesis using assms by (simp add: reschedule_appointment_def)
next
  case (Some aid)
  note oid = this
  show ?thesis
  proof (cases "find (\<lambda>b. ap_id b = aid) (appointments_collection st)")
    case None
    then show ?thesis using assms oid by (simp add: reschedule_appointment_def)
  next
    case (Some a)
    note fa = this
    show ?thesis
    proof (cases "strptime rt (new_date @ '' '' @ new_time)")
      case None
      then show ?thesis using assms oid fa by (simp add: reschedule_appointment_def)
    next
      case (Some T)
      note tm = this
      let ?upd = "\<lambda>b. b\<lparr>appointment_datetime := T, ap_updated_at := Some utcnow\<rparr>"
      show ?thesis
      proof (cases "find (\<lambda>b. ap_doctor_id b = ap_doctor_id a \<and> appointment_datetime b = T
                       \<and> status_in_active b \<and> ap_id b \<noteq> aid) (appointments_collection st)")
        case (Some existing)
        then show ?thesis using assms oid fa tm by (simp add: reschedule_appointment_def)
      next
        case None
        note free = this
        have c: "\<And>b. b \<in> set (appointments_collection st) \<Longrightarrow> ap_id b \<noteq> aid \<Longrightarrow>
                   status_in_active b \<Longrightarrow> status_in_active (?upd a) \<Longrightarrow> slot b \<noteq> slot (?upd a)"
          using free by (auto simp: find_None_iff slot_def)
        have r: "distinct (map ap_id (replace_first (\<lambda>b. ap_id b = aid) ?upd (appointments_collection st)))
               \<and> unique_active (replace_first (\<lambda>b. ap_id b = aid) ?upd (appointments_collection st))"
          by (rule store_inv_replace_first [OF assms fa]) (simp, rule c)
        from update_one_appointment_cases [OF fa, of ?upd]
        show ?thesis
        proof
          assume "update_one_appointment aid ?upd (appointments_collection st) = Inl DuplicateKeyError"
          then show ?thesis using assms oid fa tm free by (simp add: reschedule_appointment_def)
        next
          assume "update_one_appointment aid ?upd (appointments_collection st)
                   = Inr (if ?upd a = a then 0 else 1,
                          replace_first (\<lambda>b. ap_id b = aid) ?upd (appointments_collection st))"
          then show ?thesis using r oid fa tm free by (simp add: reschedule_appointment_def)
        qed
      qed
    qed
  qed
qed

lemma cancel_appointment_inv:
  assumes "distinct (map ap_id (appointments_collection st))"
    and "unique_active (appointments_collection st)"
  shows "distinct (map ap_id (appointments_collection
            (snd (cancel_appointment rt utcnow1 utcnow2 st appointment_id reason))))
       \<and> unique_active (appointments_collection
            (snd (cancel_appointment rt utcnow1 utcnow2 st appointment_id reason)))"
proof (cases "ObjectId rt appointment_id")
  case None
  then show ?thesis using assms by (simp add: cancel_appointment_def)
next
  case (Some aid)
  note oid = this
  let ?upd = "cancel_update utcnow1 utcnow2 reason"
  show ?thesis
  proof (cases "find (\<lambda>b. ap_id b = aid) (appointments_collection st)")
    case None
    then show ?thesis using assms oid
      by (simp add: cancel_appointment_def update_one_appointment_def)
  next
    case (Some a)
    note fa = this
    have n: "\<not> status_in_active (?upd a)"
      by (simp add: cancel_update_def status_in_active_def Let_def)
    have i: "\<And>b. ap_id (?upd b) = ap_id b"
      by (simp add: cancel_update_def Let_def)
    have r: "distinct (map ap_id (replace_first (\<lambda>b. ap_id b = aid) ?upd (appointments_collection st)))
           \<and> unique_active (replace_first (\<lambda>b. ap_id b = aid) ?upd (appointments_collection st))"
      by (rule store_inv_replace_first [OF assms fa i]) (simp add: n)
    from update_one_appointment_cases [OF fa, of ?upd]
    show ?thesis
    proof
      assume "update_one_appointment aid ?upd (appointments_collection st) = Inl DuplicateKeyError"
      then show ?thesis using assms oid by (simp add: cancel_appointment_def)
    next
      assume "update_one_appointment aid ?upd (appointments_collection st)
               = Inr (if ?upd a = a then 0 else 1,
                      replace_first (\<lambda>b. ap_id b = aid) ?upd (appointments_collection st))"
      then show ?thesis using r assms oid by (simp add: cancel_appointment_def)
    qed
  qed
qed

lemma step_inv:
  assumes "distinct (map ap_id (appointments_collection st))"
    and "unique_active (appointments_collection st)"
  shows "distinct (map ap_id (appointments_collection (step rt st c)))
       \<and> unique_active (appointments_collection (step rt st c))"
proof (cases c)
  case (Book x1 x2 x3 x4 x5 x6 x7 x8)
  then show ?thesis using book_appointment_inv [OF assms] by simp
next
  case (Reschedule x1 x2 x3 x4)
  then show ?thesis using reschedule_appointment_inv [OF assms] by simp
next
  case (Cancel x1 x2 x3 x4)
  then show ?thesis using cancel_appointment_inv [OF assms] by simp
qed

lemma run_inv:
  "distinct (map ap_id (appointments_collection st)) \<Longrightarrow> unique_active (appointments_collection st) \<Longrightarrow>
     distinct (map ap_id (appointments_collection (run rt st calls)))
   \<and> unique_active (appointments_collection (run rt st calls))"
proof (induction calls arbitrary: st)
  case Nil
  then show ?case by simp
next
  case (Cons c cs)
  from step_inv [OF Cons.prems, of rt c] Cons.IH [of "step rt st c"]
  show ?case by simp
qed

text \<open>
  Claim C5. From a store whose \<open>_id\<close>s are pairwise different and in which every
  doctor has at most one scheduled or confirmed appointment at every instant, any
  finite sequence of \<open>book_appointment\<close>, \<open>reschedule_appointment\<close> and
  \<open>cancel_appointment\<close> calls, run one after the other, leads to a store in which
  every doctor \<open>D\<close> has at most one scheduled or confirmed appointment at every
  instant \<open>T\<close>.
\<close>

theorem no_double_booking_after_calls:
  assumes "distinct (map ap_id (appointments_collection st))"
    and "\<forall>D T. length (active_at (appointments_collection st) D T) \<le> 1"
  shows "length (active_at (appointments_collection (run rt st calls)) D T) \<le> 1"
proof -
  have "unique_active (appointments_collection st)"
    using no_double_booking_iff [OF assms(1)] assms(2) by simp
  from run_inv [OF assms(1) this, of rt calls]
  show ?thesis
    using no_double_booking_iff [of "appointments_collection (run rt st calls)"] by blast
qed

theorem no_double_booking_after_calls_witness:
  "length (active_at (appointments_collection (run sample_runtime (sample_db [sample_appointment ''scheduled''])
      [Book 1741000000000 ''65f0000000000000000000a2'' ''65f000000000000000000001''
         ''65f0000000000000000000d1'' ''2025-03-10'' ''09:00'' ''second opinion'' None,
       Reschedule 1741000000001 ''65f0000000000000000000a1'' ''2025-03-11'' ''10:00'',
       Book 1741000000002 ''65f0000000000000000000a3'' ''65f000000000000000000001''
         ''65f0000000000000000000d1'' ''2025-03-10'' ''09:00'' ''follow-up'' None,
       Cancel 1741000000003 1741000000004 ''65f0000000000000000000a1'' None]))
     ''65f0000000000000000000d1'' 1741597200000) \<le> 1"
  by (rule no_double_booking_after_calls) (simp_all add: sample_defs active_at_def)

section \<open>Rescheduling an appointment to its own time\<close>

lemma slot_unique_no_other:
  assumes "distinct (map slot coll)" and "a \<in> set coll" and "b \<in> set coll" and "slot b = slot a"
  shows "b = a"
  using assms by (meson distinct_map inj_onD)

text \<open>
  The indexes are an invariant of the store: every scheduling call leaves a
  collection that satisfies them in a state that satisfies them.
\<close>

lemma distinct_map_replace_first:
  assumes "distinct (map ap_id xs)" and "distinct (map g xs)"
    and "find (\<lambda>b. ap_id b = aid) xs = Some a"
    and "\<And>b. b \<in> set xs \<Longrightarrow> ap_id b \<noteq> aid \<Longrightarrow> g b \<noteq> g (upd a)"
  shows "distinct (map g (replace_first (\<lambda>b. ap_id b = aid) upd xs))"
  using assms
proof (induction xs)
  case Nil
  then show ?case by simp
next
  case (Cons x xs)
  show ?case
  proof (cases "ap_id x = aid")
    case True
    then have ax: "a = x" using Cons.prems(3) by simp
    have "g (upd x) \<notin> g ` set xs"
    proof
      assume "g (upd x) \<in> g ` set xs"
      then obtain b where b: "b \<in> set xs" "g b = g (upd x)" by auto
      then have "ap_id b \<noteq> aid" using Cons.prems(1) True by (auto simp: image_iff)
      then show False using Cons.prems(4) [of b] b ax by simp
    qed
    then show ?thesis using True Cons.prems(2) by simp
  next
    case False
    then have f: "find (\<lambda>b. ap_id b = aid) xs = Some a" using Cons.prems(3) by simp
    have d: "distinct (map ap_id xs)" "distinct (map g xs)" using Cons.prems(1,2) by simp_all
    have ih: "distinct (map g (replace_first (\<lambda>b. ap_id b = aid) upd xs))"
      by (rule Cons.IH [OF d f]) (simp add: Cons.prems(4))
    have "g x \<notin> g ` set (replace_first (\<lambda>b. ap_id b = aid) upd xs)"
    proof
      assume "g x \<in> g ` set (replace_first (\<lambda>b. ap_id b = aid) upd xs)"
      then obtain b where b: "b \<in> insert (upd a) {b \<in> set xs. ap_id b \<noteq> aid}" "g x = g b"
        unfolding set_replace_first [OF d(1) f] by blast
      show False
      proof (cases "b = upd a")
        case True
        then show False using Cons.prems(4) [of x] False b by simp
      next
        case False
        then have "b \<in> set xs" using b by simp
        then show False using Cons.prems(2) b(2) by (auto simp: image_iff)
      qed
    qed
    then show ?thesis using False ih by simp
  qed
qed

lemma update_one_appointment_Inr:
  assumes "find (\<lambda>b. ap_id b = aid) coll = Some a"
    and "update_one_appointment aid upd coll = Inr r"
  shows "r = (if upd a = a then 0 else 1, replace_first (\<lambda>b. ap_id b = aid) upd coll)
       \<and> (slot (upd a) = slot a \<or> (\<forall>b\<in>set coll. ap_id b \<noteq> aid \<longrightarrow> slot b \<noteq> slot (upd a)))"
  using assms
  by (auto simp: update_one_appointment_def update_one_def replace_first_same list_ex_iff
        split: if_splits)

lemma indexes_hold_replace_first:
  assumes ih: "indexes_hold coll"
    and f: "find (\<lambda>b. ap_id b = aid) coll = Some a"
    and i: "\<And>b. ap_id (upd b) = ap_id b"
    and c: "slot (upd a) = slot a \<or> (\<forall>b\<in>set coll. ap_id b \<noteq> aid \<longrightarrow> slot b \<noteq> slot (upd a))"
  shows "indexes_hold (replace_first (\<lambda>b. ap_id b = aid) upd coll)"
proof -
  have di: "distinct (map ap_id coll)" and ds: "distinct (map slot coll)"
    using ih by (simp_all add: indexes_hold_def)
  have m: "a \<in> set coll" "ap_id a = aid" using find_Some_mem [OF f] by simp_all
  have n: "slot b \<noteq> slot (upd a)" if "b \<in> set coll" "ap_id b \<noteq> aid" for b
  proof (cases "slot (upd a) = slot a")
    case True
    have "b \<noteq> a" using that(2) m(2) by auto
    then have "slot b \<noteq> slot a" using slot_unique_no_other [OF ds m(1) that(1)] by auto
    then show ?thesis using True by simp
  next
    case False
    then show ?thesis using c that by blast
  qed
  have "distinct (map slot (replace_first (\<lambda>b. ap_id b = aid) upd coll))"
    by (rule distinct_map_replace_first [OF di ds f]) (rule n)
  moreover have "distinct (map ap_id (replace_first (\<lambda>b. ap_id b = aid) upd coll))"
    using di by (simp add: map_ap_id_replace_first [OF i])
  ultimately show ?thesis by (simp add: indexes_hold_def)
qed

lemma indexes_hold_update:
  assumes "indexes_hold coll" and "\<And>b. ap_id (upd b) = ap_id b"
    and "update_one_appointment aid upd coll = Inr (n, coll')"
  shows "indexes_hold coll'"
proof (cases "find (\<lambda>b. ap_id b = aid) coll")
  case None
  then show ?thesis using assms(1,3) by (simp add: update_one_appointment_def)
next
  case (Some a)
  from update_one_appointment_Inr [OF Some assms(3)]
  show ?thesis using indexes_hold_replace_first [OF assms(1) Some assms(2)] by simp
qed

lemma indexes_hold_step:
  assumes "indexes_hold (appointments_collection st)"
  shows "indexes_hold (appointments_collection (step rt st c))"
proof (cases c)
  case (Book x1 x2 x3 x4 x5 x6 x7 x8)
  then show ?thesis using assms
    by (auto simp: book_appointment_def insert_one_appointment_def indexes_hold_def list_ex_iff
          Let_def image_iff split: option.splits)
next
  case (Reschedule x1 x2 x3 x4)
  then show ?thesis using assms
    by (auto simp: reschedule_appointment_def split: option.splits sum.splits
          intro: indexes_hold_update [rotated 2])
next
  case (Cancel x1 x2 x3 x4)
  have "\<And>b. ap_id (cancel_update x1 x2 x4 b) = ap_id b"
    by (simp add: cancel_update_def Let_def)
  with Cancel show ?thesis using assms
    by (auto simp: cancel_appointment_def split: option.splits sum.splits
          intro: indexes_hold_update [rotated 2])
qed

lemma indexes_hold_run:
  "indexes_hold (appointments_collection st) \<Longrightarrow>
     indexes_hold (appointments_collection (run rt st calls))"
  by (induction calls arbitrary: st) (simp_all add: indexes_hold_step)

text \<open>
  Claim C6. In a store that satisfies its indexes, rescheduling an existing appointment
  \<open>a\<close> to a date and time that parse to its own \<open>appointment_datetime\<close> succeeds:
  the conflict query excludes \<open>a\<close> by its \<open>_id\<close> and no other document shares its
  slot. The appointment returned is \<open>a\<close> with a new \<open>updated_at\<close>, so it has that
  date-time.
\<close>

theorem reschedule_to_own_time:
  assumes "ObjectId rt appointment_id = Some aid"
    and "find (\<lambda>b. ap_id b = aid) (appointments_collection st) = Some a"
    and "strptime rt (new_date @ '' '' @ new_time) = Some (appointment_datetime a)"
    and "indexes_hold (appointments_collection st)"
  shows "reschedule_appointment rt utcnow st appointment_id new_date new_time =
           (Inr (Some (a\<lparr>ap_updated_at := Some utcnow\<rparr>)),
            st\<lparr>appointments_collection :=
                 replace_first (\<lambda>b. ap_id b = aid)
                   (\<lambda>b. b\<lparr>appointment_datetime := appointment_datetime a,
                          ap_updated_at := Some utcnow\<rparr>)
                   (appointments_collection st)\<rparr>)
       \<and> appointment_datetime (a\<lparr>ap_updated_at := Some utcnow\<rparr>) = appointment_datetime a"
proof -
  let ?upd = "\<lambda>b. b\<lparr>appointment_datetime := appointment_datetime a, ap_updated_at := Some utcnow\<rparr>"
  have m: "a \<in> set (appointments_collection st)" and i: "ap_id a = aid"
    using find_Some_mem [OF assms(2)] by simp_all
  have d: "distinct (map slot (appointments_collection st))"
    using assms(4) by (simp add: indexes_hold_def)
  have free: "find (\<lambda>b. ap_doctor_id b = ap_doctor_id a \<and> appointment_datetime b = appointment_datetime a
                 \<and> status_in_active b \<and> ap_id b \<noteq> aid) (appointments_collection st) = None"
  proof -
    have "ap_id b = aid" if "b \<in> set (appointments_collection st)"
      and "ap_doctor_id b = ap_doctor_id a" and "appointment_datetime b = appointment_datetime a" for b
    proof -
      have "slot b = slot a" using that(2,3) by (simp add: slot_def)
      then have "b = a" using slot_unique_no_other [OF d m that(1)] by simp
      then show ?thesis using i by simp
    qed
    then show ?thesis unfolding find_None_iff by blast
  qed
  have s: "slot (?upd a) = slot a" by (simp add: slot_def)
  have u: "?upd a = a\<lparr>ap_updated_at := Some utcnow\<rparr>" by simp
  note uo = update_one_appointment_same_slot [where upd = ?upd, OF assms(2) s]
  have f: "find (\<lambda>b. ap_id b = aid) (replace_first (\<lambda>b. ap_id b = aid) ?upd (appointments_collection st))
             = Some (?upd a)"
    using find_replace_first [where q = "\<lambda>b. ap_id b = aid" and upd = ?upd, OF assms(2)] i by simp
  show ?thesis
    using assms(1,2,3) free uo f u by (simp add: reschedule_appointment_def)
qed

theorem reschedule_to_own_time_witness:
  "reschedule_appointment sample_runtime 1741000000005 (sample_db [sample_appointment ''scheduled''])
      ''65f0000000000000000000a1'' ''2025-03-10'' ''09:00''
   = (Inr (Some ((sample_appointment ''scheduled'')\<lparr>ap_updated_at := Some 1741000000005\<rparr>)),
      sample_db [(sample_appointment ''scheduled'')\<lparr>ap_updated_at := Some 1741000000005\<rparr>])"
  using reschedule_to_own_time [where rt = sample_runtime
      and appointment_id = "''65f0000000000000000000a1''" and aid = "''65f0000000000000000000a1''"
      and st = "sample_db [sample_appointment ''scheduled'']"
      and a = "sample_appointment ''scheduled''" and utcnow = 1741000000005
      and new_date = "''2025-03-10''" and new_time = "''09:00''"]
  by (simp add: sample_defs indexes_hold_def slot_def)

section \<open>The health summary\<close>

lemma sort_desc_Cons_max:
  assumes "sort_desc k xs = x # ys"
  shows "x \<in> set xs \<and> (\<forall>y\<in>set xs. k y \<le> k x)"
proof -
  have "sorted (map (\<lambda>x. - k x) (sort_desc k xs))"
    unfolding sort_desc_def by (rule sorted_sort_key)
  then have s: "sorted (map (\<lambda>x. - k x) (x # ys))"
    unfolding assms .
  have "set (sort_desc k xs) = set xs"
    unfolding sort_desc_def by simp
  then have e: "set (x # ys) = set xs"
    unfolding assms .
  have "\<forall>y\<in>set (x # ys). k y \<le> k x" using s by auto
  then show ?thesis using e by auto
qed

lemma sort_desc_Nil: "(sort_desc k xs = []) = (xs = [])"
  by (metis length_0_conv length_sort sort_desc_def)

lemma find_one_sorted_desc_None:
  "(find_one_sorted_desc k q coll = None) = (\<forall>r\<in>set coll. \<not> q r)"
proof -
  have "(find_one_sorted_desc k q coll = None) = (sort_desc k (filter q coll) = [])"
    by (simp add: find_one_sorted_desc_def split: list.splits)
  also have "\<dots> = (filter q coll = [])" by (rule sort_desc_Nil)
  also have "\<dots> = (\<forall>r\<in>set coll. \<not> q r)" by (simp add: filter_empty_conv)
  finally show ?thesis .
qed

lemma find_one_sorted_desc_Some:
  assumes "find_one_sorted_desc k q coll = Some r"
  shows "r \<in> set coll \<and> q r \<and> (\<forall>r'\<in>set coll. q r' \<longrightarrow> k r' \<le> k r)"
proof -
  obtain ys where "sort_desc k (filter q coll) = r # ys"
    using assms by (auto simp: find_one_sorted_desc_def split: list.splits)
  from sort_desc_Cons_max [OF this] show ?thesis by auto
qed

text \<open>
  Claim C8. \<open>get_health_summary\<close> fails with the patient-not-found error when the
  identifier is one \<open>ObjectId\<close> accepts and no patient has it (an identifier that
  \<open>ObjectId\<close> rejects fails too, with that exception's text). Otherwise it returns a
  summary in which \<open>total_visits\<close> is the number of medical records of the patient,
  \<open>upcoming_appointments\<close> the number of the patient's appointments at or after
  \<open>utcnow\<close> whose status is scheduled or confirmed, \<open>active_prescriptions\<close> the
  number of the patient's prescriptions with status active, and \<open>last_visit\<close> is
  absent exactly when the patient has no medical record and is otherwise one of the
  patient's records with the greatest visit date.
\<close>

theorem get_health_summary_result:
  "(ObjectId rt patient_id = None \<longrightarrow>
      get_health_summary rt utcnow st patient_id = Inl (Exception InvalidId))
   \<and> (\<forall>pid. ObjectId rt patient_id = Some pid \<and> pid \<notin> p_id ` set (patients_collection st) \<longrightarrow>
      get_health_summary rt utcnow st patient_id = Inl (PatientNotFound patient_id))
   \<and> (\<forall>pid. ObjectId rt patient_id = Some pid \<and> pid \<in> p_id ` set (patients_collection st) \<longrightarrow>
      (\<exists>name s. get_health_summary rt utcnow st patient_id = Inr (name, s)
         \<and> total_visits s
             = length (filter (\<lambda>r. mr_patient_id r = patient_id) (medical_records_collection st))
         \<and> upcoming_appointments s
             = length (filter (\<lambda>a. ap_patient_id a = patient_id \<and> utcnow \<le> appointment_datetime a
                                \<and> (ap_status a = ''scheduled'' \<or> ap_status a = ''confirmed''))
                         (appointments_collection st))
         \<and> active_prescriptions s
             = length (filter (\<lambda>r. rx_patient_id r = patient_id \<and> rx_status r = ''active'')
                         (prescriptions_collection st))
         \<and> ((last_visit s = None)
              = (\<forall>r\<in>set (medical_records_collection st). mr_patient_id r \<noteq> patient_id))
         \<and> (\<forall>r. last_visit s = Some r \<longrightarrow>
               r \<in> set (medical_records_collection st) \<and> mr_patient_id r = patient_id
               \<and> (\<forall>r'\<in>set (medical_records_collection st).
                     mr_patient_id r' = patient_id \<longrightarrow> visit_date r' \<le> visit_date r))))"
proof (intro conjI allI impI)
  assume "ObjectId rt patient_id = None"
  then show "get_health_summary rt utcnow st patient_id = Inl (Exception InvalidId)"
    by (simp add: get_health_summary_def)
next
  fix pid
  assume "ObjectId rt patient_id = Some pid \<and> pid \<notin> p_id ` set (patients_collection st)"
  then have "ObjectId rt patient_id = Some pid"
    and "find (\<lambda>p. p_id p = pid) (patients_collection st) = None"
    by (auto simp: find_None_iff)
  then show "get_health_summary rt utcnow st patient_id = Inl (PatientNotFound patient_id)"
    by (simp add: get_health_summary_def)
next
  fix pid
  assume h: "ObjectId rt patient_id = Some pid \<and> pid \<in> p_id ` set (patients_collection st)"
  then obtain patient where p: "find (\<lambda>p. p_id p = pid) (patients_collection st) = Some patient"
    by (cases "find (\<lambda>p. p_id p = pid) (patients_collection st)") (auto simp: find_None_iff)
  let ?lv = "find_one_sorted_desc visit_date (\<lambda>r. mr_patient_id r = patient_id)
               (medical_records_collection st)"
  let ?s = "\<lparr>total_visits =
                count_documents (\<lambda>r. mr_patient_id r = patient_id) (medical_records_collection st),
             upcoming_appointments =
                count_documents (\<lambda>a. ap_patient_id a = patient_id \<and> utcnow \<le> appointment_datetime a
                                       \<and> status_in_active a) (appointments_collection st),
             active_prescriptions =
                count_documents (\<lambda>r. rx_patient_id r = patient_id \<and> rx_status r = ''active'')
                  (prescriptions_collection st),
             last_visit = ?lv,
             sm_blood_group = p_blood_group patient,
             sm_allergies = p_allergies patient\<rparr>"
  have r: "get_health_summary rt utcnow st patient_id = Inr (p_name patient, ?s)"
    using h p by (simp add: get_health_summary_def)
  have n: "(?lv = None) = (\<forall>r\<in>set (medical_records_collection st). mr_patient_id r \<noteq> patient_id)"
    by (simp add: find_one_sorted_desc_None)
  have m: "\<forall>r. ?lv = Some r \<longrightarrow>
               r \<in> set (medical_records_collection st) \<and> mr_patient_id r = patient_id
               \<and> (\<forall>r'\<in>set (medical_records_collection st).
                     mr_patient_id r' = patient_id \<longrightarrow> visit_date r' \<le> visit_date r)"
    using find_one_sorted_desc_Some [of visit_date "\<lambda>r. mr_patient_id r = patient_id"
        "medical_records_collection st"] by blast
  show "\<exists>name s. get_health_summary rt utcnow st patient_id = Inr (name, s)
         \<and> total_visits s
             = length (filter (\<lambda>r. mr_patient_id r = patient_id) (medical_records_collection st))
         \<and> upcoming_appointments s
             = length (filter (\<lambda>a. ap_patient_id a = patient_id \<and> utcnow \<le> appointment_datetime a
                                \<and> (ap_status a = ''scheduled'' \<or> ap_status a = ''confirmed''))
                         (appointments_collection st))
         \<and> active_prescriptions s
             = length (filter (\<lambda>r. rx_patient_id r = patient_id \<and> rx_status r = ''active'')
                         (prescriptions_collection st))
         \<and> ((last_visit s = None)
              = (\<forall>r\<in>set (medical_records_collection st). mr_patient_id r \<noteq> patient_id))
         \<and> (\<forall>r. last_visit s = Some r \<longrightarrow>
               r \<in> set (medical_records_collection st) \<and> mr_patient_id r = patient_id
               \<and> (\<forall>r'\<in>set (medical_records_collection st).
                     mr_patient_id r' = patient_id \<longrightarrow> visit_date r' \<le> visit_date r))"
    apply (rule exI [of _ "p_name patient"])
    apply (rule exI [of _ ?s])
    using r n m by (simp add: count_documents_def status_in_active_def)
qed


theorem get_health_summary_result_witness:
  "\<exists>name s. get_health_summary sample_runtime 1741000000000
     ((sample_db [sample_appointment ''scheduled''])
        \<lparr>medical_records_collection :=
           [\<lparr>mr_id = ''65f0000000000000000000b1'', mr_patient_id = ''65f000000000000000000001'',
             mr_doctor_id = ''65f0000000000000000000d1'', visit_date = 1740000000000,
             mr_diagnosis = ''Hypertension''\<rparr>],
         prescriptions_collection :=
           [\<lparr>rx_id = ''65f0000000000000000000c1'', rx_patient_id = ''65f000000000000000000001'',
             rx_doctor_id = ''65f0000000000000000000d1'', prescribed_date = 1740000000000,
             rx_status = ''active''\<rparr>]\<rparr>)
     ''65f000000000000000000001'' = Inr (name, s)
   \<and> total_visits s = 1 \<and> upcoming_appointments s = 1 \<and> active_prescriptions s = 1
   \<and> last_visit s \<noteq> None"
proof -
  let ?db = "(sample_db [sample_appointment ''scheduled''])
        \<lparr>medical_records_collection :=
           [\<lparr>mr_id = ''65f0000000000000000000b1'', mr_patient_id = ''65f000000000000000000001'',
             mr_doctor_id = ''65f0000000000000000000d1'', visit_date = 1740000000000,
             mr_diagnosis = ''Hypertension''\<rparr>],
         prescriptions_collection :=
           [\<lparr>rx_id = ''65f0000000000000000000c1'', rx_patient_id = ''65f000000000000000000001'',
             rx_doctor_id = ''65f0000000000000000000d1'', prescribed_date = 1740000000000,
             rx_status = ''active''\<rparr>]\<rparr>"
  let ?pid = "''65f000000000000000000001''"
  have h: "ObjectId sample_runtime ?pid = Some ?pid \<and> ?pid \<in> p_id ` set (patients_collection ?db)"
    by (simp add: sample_defs)
  note t = get_health_summary_result [of sample_runtime ?pid 1741000000000 ?db,
      THEN conjunct2, THEN conjunct2, rule_format, OF h]
  then obtain name s where r: "get_health_summary sample_runtime 1741000000000 ?db ?pid = Inr (name, s)"
    and tv: "total_visits s
             = length (filter (\<lambda>r. mr_patient_id r = ?pid) (medical_records_collection ?db))"
    and up: "upcoming_appointments s
             = length (filter (\<lambda>a. ap_patient_id a = ?pid \<and> 1741000000000 \<le> appointment_datetime a
                                \<and> (ap_status a = ''scheduled'' \<or> ap_status a = ''confirmed''))
                         (appointments_collection ?db))"
    and ap: "active_prescriptions s
             = length (filter (\<lambda>r. rx_patient_id r = ?pid \<and> rx_status r = ''active'')
                         (prescriptions_collection ?db))"
    and lv: "(last_visit s = None)
              = (\<forall>r\<in>set (medical_records_collection ?db). mr_patient_id r \<noteq> ?pid)"
    by (elim exE conjE)
  have "total_visits s = 1" using tv by (simp add: sample_defs)
  moreover have "upcoming_appointments s = 1" using up by (simp add: sample_defs)
  moreover have "active_prescriptions s = 1" using ap by (simp add: sample_defs)
  moreover have "last_visit s \<noteq> None" using lv by (simp add: sample_defs)
  ultimately show ?thesis using r by blast
qed

section \<open>The cap on listings\<close>

text \<open>
  What \<^verbatim>\<open>to_list(length=100)\<close> returns of a query: the first 100 matching
  documents in the order of the query, all of them matches, in the order of the sort.
\<close>

lemma sorted_take_sort_key:
  "sorted (map k (take n (sort_key k xs)))"
proof -
  have "sorted (take n (map k (sort_key k xs)))"
    by (rule sorted_wrt_take) (rule sorted_sort_key)
  then show ?thesis by (simp add: take_map)
qed

lemma set_take_filter:
  "set (take n (filter q xs)) \<subseteq> {x \<in> set xs. q x}"
proof
  fix x
  assume "x \<in> set (take n (filter q xs))"
  then have "x \<in> set (filter q xs)" by (rule in_set_takeD)
  then show "x \<in> {x \<in> set xs. q x}" by simp
qed

lemma set_take_sort_filter:
  "set (take n (sort_key k (filter q xs))) \<subseteq> {x \<in> set xs. q x}"
proof
  fix x
  assume "x \<in> set (take n (sort_key k (filter q xs)))"
  then have "x \<in> set (sort_key k (filter q xs))" by (rule in_set_takeD)
  then show "x \<in> {x \<in> set xs. q x}" by simp
qed

lemma capped_sorted_listing:
  "\<exists>l. (Inr (take 100 (sort_key k (filter q xs))) :: error + 'a list) = Inr l
      \<and> l = take 100 (sort_key k (filter q xs))
      \<and> length l \<le> 100
      \<and> length l = min 100 (length (filter q xs))
      \<and> sorted (map k l)
      \<and> set l \<subseteq> {x \<in> set xs. q x}"
proof (intro exI [of _ "take 100 (sort_key k (filter q xs))"] conjI)
  show "length (take 100 (sort_key k (filter q xs))) \<le> 100" by simp
  show "length (take 100 (sort_key k (filter q xs))) = min 100 (length (filter q xs))" by simp
  show "sorted (map k (take 100 (sort_key k (filter q xs))))" by (rule sorted_take_sort_key)
  show "set (take 100 (sort_key k (filter q xs))) \<subseteq> {x \<in> set xs. q x}"
    by (rule set_take_sort_filter)
qed (rule refl)+

lemma capped_listing:
  "\<exists>l. (Inr (take 100 (filter q xs)) :: error + 'a list) = Inr l
      \<and> l = take 100 (filter q xs)
      \<and> length l \<le> 100
      \<and> length l = min 100 (length (filter q xs))
      \<and> set l \<subseteq> {x \<in> set xs. q x}"
proof (intro exI [of _ "take 100 (filter q xs)"] conjI)
  show "length (take 100 (filter q xs)) \<le> 100" by simp
  show "length (take 100 (filter q xs)) = min 100 (length (filter q xs))" by simp
  show "set (take 100 (filter q xs)) \<subseteq> {x \<in> set xs. q x}" by (rule set_take_filter)
qed (rule refl)+

text \<open>
  Claim C10. \<open>get_my_appointments\<close> and \<open>get_prescriptions\<close> always succeed,
  \<open>get_appointment_reminders\<close> succeeds whenever the end of its window is a
  representable date, and \<open>search_doctors\<close> whenever its patterns compile (otherwise
  they return the exception's text and no list). The list a successful call returns is
  the first 100 entries of the matching documents in query order (ascending
  \<open>appointment_datetime\<close>, descending \<open>prescribed_date\<close>, insertion order for
  doctors): it has at most 100 entries, its length is the smaller of 100 and the number
  of matching documents, every entry matches the query, and the entries are in the
  order of the sort. When more than 100 documents match, those after the first 100
  are left out of a result that still reports success.
\<close>

theorem listings_capped_at_100:
  "(\<exists>l. get_my_appointments utcnow st patient_id status upcoming_only = Inr l
        \<and> l = take 100 (sort_key appointment_datetime
              (filter (\<lambda>a. ap_patient_id a = patient_id
                         \<and> (if truthy status then ap_status a = the status else True)
                         \<and> (if upcoming_only then utcnow \<le> appointment_datetime a else True))
                 (appointments_collection st)))
        \<and> length l \<le> 100
        \<and> length l = min 100 (count_documents
              (\<lambda>a. ap_patient_id a = patient_id
                   \<and> (if truthy status then ap_status a = the status else True)
                   \<and> (if upcoming_only then utcnow \<le> appointment_datetime a else True))
              (appointments_collection st))
        \<and> sorted (map appointment_datetime l)
        \<and> set l \<subseteq> {a \<in> set (appointments_collection st). ap_patient_id a = patient_id
                       \<and> (if truthy status then ap_status a = the status else True)
                       \<and> (if upcoming_only then utcnow \<le> appointment_datetime a else True)})
   \<and> (add_days utcnow days = None \<longrightarrow>
        get_appointment_reminders utcnow st patient_id days = Inl (Exception OverflowError))
   \<and> (\<forall>end_date. add_days utcnow days = Some end_date \<longrightarrow>
       (\<exists>l. get_appointment_reminders utcnow st patient_id days = Inr l
          \<and> l = take 100 (sort_key appointment_datetime
                (filter (\<lambda>a. ap_patient_id a = patient_id
                           \<and> utcnow \<le> appointment_datetime a \<and> appointment_datetime a \<le> end_date
                           \<and> (ap_status a = ''scheduled'' \<or> ap_status a = ''confirmed''))
                   (appointments_collection st)))
          \<and> length l \<le> 100
          \<and> length l = min 100 (count_documents
                (\<lambda>a. ap_patient_id a = patient_id
                     \<and> utcnow \<le> appointment_datetime a \<and> appointment_datetime a \<le> end_date
                     \<and> (ap_status a = ''scheduled'' \<or> ap_status a = ''confirmed''))
                (appointments_collection st))
          \<and> sorted (map appointment_datetime l)
          \<and> set l \<subseteq> {a \<in> set (appointments_collection st). ap_patient_id a = patient_id
                         \<and> utcnow \<le> appointment_datetime a \<and> appointment_datetime a \<le> end_date
                         \<and> (ap_status a = ''scheduled'' \<or> ap_status a = ''confirmed'')}))
   \<and> (\<exists>l. get_prescriptions st patient_id active_only = Inr l
        \<and> l = take 100 (sort_key (\<lambda>r. - prescribed_date r)
              (filter (\<lambda>r. rx_patient_id r = patient_id
                         \<and> (if active_only then rx_status r = ''active'' else True))
                 (prescriptions_collection st)))
        \<and> length l \<le> 100
        \<and> length l = min 100 (count_documents
              (\<lambda>r. rx_patient_id r = patient_id
                   \<and> (if active_only then rx_status r = ''active'' else True))
              (prescriptions_collection st))
        \<and> sorted (map (\<lambda>r. - prescribed_date r) l)
        \<and> set l \<subseteq> {r \<in> set (prescriptions_collection st). rx_patient_id r = patient_id
                       \<and> (if active_only then rx_status r = ''active'' else True)})
   \<and> (regex_condition rt specialization = None \<or> regex_condition rt department = None
         \<or> regex_condition rt name = None \<longrightarrow>
        search_doctors rt st specialization department name = Inl (Exception OperationFailure))
   \<and> (\<forall>ms md mn. regex_condition rt specialization = Some ms
         \<and> regex_condition rt department = Some md \<and> regex_condition rt name = Some mn \<longrightarrow>
       (\<exists>l. search_doctors rt st specialization department name = Inr l
          \<and> l = take 100 (filter (\<lambda>d. ms (d_specialization d) \<and> md (d_department d) \<and> mn (d_name d))
                            (doctors_collection st))
          \<and> length l \<le> 100
          \<and> length l = min 100 (count_documents
                (\<lambda>d. ms (d_specialization d) \<and> md (d_department d) \<and> mn (d_name d))
                (doctors_collection st))
          \<and> set l \<subseteq> {d \<in> set (doctors_collection st).
                         ms (d_specialization d) \<and> md (d_department d) \<and> mn (d_name d)}))"
proof (intro conjI allI impI)
  show "\<exists>l. get_my_appointments utcnow st patient_id status upcoming_only = Inr l
        \<and> l = take 100 (sort_key appointment_datetime
              (filter (\<lambda>a. ap_patient_id a = patient_id
                         \<and> (if truthy status then ap_status a = the status else True)
                         \<and> (if upcoming_only then utcnow \<le> appointment_datetime a else True))
                 (appointments_collection st)))
        \<and> length l \<le> 100
        \<and> length l = min 100 (count_documents
              (\<lambda>a. ap_patient_id a = patient_id
                   \<and> (if truthy status then ap_status a = the status else True)
                   \<and> (if upcoming_only then utcnow \<le> appointment_datetime a else True))
              (appointments_collection st))
        \<and> sorted (map appointment_datetime l)
        \<and> set l \<subseteq> {a \<in> set (appointments_collection st). ap_patient_id a = patient_id
                       \<and> (if truthy status then ap_status a = the status else True)
                       \<and> (if upcoming_only then utcnow \<le> appointment_datetime a else True)}"
    unfolding get_my_appointments_def count_documents_def
    by (rule capped_sorted_listing)
next
  assume "add_days utcnow days = None"
  then show "get_appointment_reminders utcnow st patient_id days = Inl (Exception OverflowError)"
    by (simp add: get_appointment_reminders_def)
next
  fix end_date
  assume e: "add_days utcnow days = Some end_date"
  show "\<exists>l. get_appointment_reminders utcnow st patient_id days = Inr l
          \<and> l = take 100 (sort_key appointment_datetime
                (filter (\<lambda>a. ap_patient_id a = patient_id
                           \<and> utcnow \<le> appointment_datetime a \<and> appointment_datetime a \<le> end_date
                           \<and> (ap_status a = ''scheduled'' \<or> ap_status a = ''confirmed''))
                   (appointments_collection st)))
          \<and> length l \<le> 100
          \<and> length l = min 100 (count_documents
                (\<lambda>a. ap_patient_id a = patient_id
                     \<and> utcnow \<le> appointment_datetime a \<and> appointment_datetime a \<le> end_date
                     \<and> (ap_status a = ''scheduled'' \<or> ap_status a = ''confirmed''))
                (appointments_collection st))
          \<and> sorted (map appointment_datetime l)
          \<and> set l \<subseteq> {a \<in> set (appointments_collection st). ap_patient_id a = patient_id
                         \<and> utcnow \<le> appointment_datetime a \<and> appointment_datetime a \<le> end_date
                         \<and> (ap_status a = ''scheduled'' \<or> ap_status a = ''confirmed'')}"
    unfolding get_appointment_reminders_def count_documents_def e status_in_active_def option.case
    by (rule capped_sorted_listing)
next
  show "\<exists>l. get_prescriptions st patient_id active_only = Inr l
        \<and> l = take 100 (sort_key (\<lambda>r. - prescribed_date r)
              (filter (\<lambda>r. rx_patient_id r = patient_id
                         \<and> (if active_only then rx_status r = ''active'' else True))
                 (prescriptions_collection st)))
        \<and> length l \<le> 100
        \<and> length l = min 100 (count_documents
              (\<lambda>r. rx_patient_id r = patient_id
                   \<and> (if active_only then rx_status r = ''active'' else True))
              (prescriptions_collection st))
        \<and> sorted (map (\<lambda>r. - prescribed_date r) l)
        \<and> set l \<subseteq> {r \<in> set (prescriptions_collection st). rx_patient_id r = patient_id
                       \<and> (if active_only then rx_status r = ''active'' else True)}"
    unfolding get_prescriptions_def count_documents_def sort_desc_def
    by (rule capped_sorted_listing)
next
  assume "regex_condition rt specialization = None \<or> regex_condition rt department = None
         \<or> regex_condition rt name = None"
  then show "search_doctors rt st specialization department name = Inl (Exception OperationFailure)"
    by (auto simp: search_doctors_def split: option.splits)
next
  fix ms md mn
  assume r: "regex_condition rt specialization = Some ms
         \<and> regex_condition rt department = Some md \<and> regex_condition rt name = Some mn"
  show "\<exists>l. search_doctors rt st specialization department name = Inr l
          \<and> l = take 100 (filter (\<lambda>d. ms (d_specialization d) \<and> md (d_department d) \<and> mn (d_name d))
                            (doctors_collection st))
          \<and> length l \<le> 100
          \<and> length l = min 100 (count_documents
                (\<lambda>d. ms (d_specialization d) \<and> md (d_department d) \<and> mn (d_name d))
                (doctors_collection st))
          \<and> set l \<subseteq> {d \<in> set (doctors_collection st).
                         ms (d_specialization d) \<and> md (d_department d) \<and> mn (d_name d)}"
  proof -
    have "search_doctors rt st specialization department name
            = Inr (take 100 (filter (\<lambda>d. ms (d_specialization d) \<and> md (d_department d) \<and> mn (d_name d))
                               (doctors_collection st)))"
      using r by (simp add: search_doctors_def)
    then show ?thesis
      unfolding count_documents_def by (simp only: capped_listing)
  qed
qed


theorem listings_capped_at_100_witness:
  "\<exists>l. get_my_appointments 0
          (sample_db (map (\<lambda>n. (sample_appointment ''scheduled'')\<lparr>appointment_datetime := int n\<rparr>)
                        [0..<101]))
          ''65f000000000000000000001'' None False = Inr l
      \<and> length l = 100
      \<and> l = map (\<lambda>n. (sample_appointment ''scheduled'')\<lparr>appointment_datetime := int n\<rparr>) [0..<100]"
proof -
  let ?f = "\<lambda>n. (sample_appointment ''scheduled'')\<lparr>appointment_datetime := int n\<rparr>"
  let ?db = "sample_db (map ?f [0..<101])"
  let ?q = "\<lambda>a. ap_patient_id a = ''65f000000000000000000001''
                \<and> (if truthy None then ap_status a = the None else True)
                \<and> (if False then (0::int) \<le> appointment_datetime a else True)"
  from listings_capped_at_100 [of 0 ?db "''65f000000000000000000001''" None False, THEN conjunct1]
  obtain l where e: "get_my_appointments 0 ?db ''65f000000000000000000001'' None False = Inr l"
    and q: "l = take 100 (sort_key appointment_datetime (filter ?q (appointments_collection ?db)))"
    and n: "length l = min 100 (count_documents ?q (appointments_collection ?db))"
    by (elim exE conjE)
  have flt: "filter ?q (appointments_collection ?db) = map ?f [0..<101]"
    by (simp add: sample_defs filter_map o_def)
  have "sorted (map appointment_datetime (map ?f [0..<101]))"
    unfolding map_map o_def sorted_map
    by (rule sorted_wrt_mono_rel [OF _ sorted_upt]) simp
  then have srt: "sort_key appointment_datetime (map ?f [0..<101]) = map ?f [0..<101]"
    by (rule sort_key_id_if_sorted)
  have "l = map ?f (take 100 [0..<101])"
    unfolding q flt srt by (rule take_map)
  then have l: "l = map ?f [0..<100]" by simp
  have "length l = 100" unfolding n count_documents_def flt by simp
  with e l show ?thesis by blast
qed

section \<open>Identifiers that match no document\<close>

text \<open>
  Claim C7 as stated fails: for a \<open>patient_id\<close> that matches no patient (as the
  profile lookup shows), the five listing tools return a success result with an empty
  list, not an error.
\<close>

theorem listing_unknown_patient_counterexample:
  "get_patient_profile sample_runtime (sample_db []) ''65f000000000000000000009''
     = Inl (PatientNotFound ''65f000000000000000000009'')
   \<and> get_my_appointments 1741000000000 (sample_db []) ''65f000000000000000000009'' None True = Inr []
   \<and> get_medical_history (sample_db []) ''65f000000000000000000009'' 10 = Inr []
   \<and> get_prescriptions (sample_db []) ''65f000000000000000000009'' False = Inr []
   \<and> get_lab_reports (sample_db []) ''65f000000000000000000009'' 10 = Inr []
   \<and> get_appointment_reminders 1741000000000 (sample_db []) ''65f000000000000000000009'' 7 = Inr []"
  by (simp add: get_patient_profile_def get_my_appointments_def get_medical_history_def
        get_prescriptions_def get_lab_reports_def get_appointment_reminders_def limit_to_list_def
        add_days_def datetime_min_def datetime_max_def sort_desc_def sample_defs)

lemma find_id_None: "i \<notin> f ` set xs \<Longrightarrow> find (\<lambda>x. f x = i) xs = None"
  by (auto simp: find_None_iff)

lemma find_id_Some: "i \<in> f ` set xs \<Longrightarrow> \<exists>x. find (\<lambda>x. f x = i) xs = Some x"
  by (cases "find (\<lambda>x. f x = i) xs") (auto simp: find_None_iff)

lemma limit_to_list_ok:
  "0 \<le> limit \<Longrightarrow> limit < 2 ^ 63 \<Longrightarrow> limit_to_list limit xs = Inr (take (nat limit) xs)"
  by (simp add: limit_to_list_def)

text \<open>
  Claim C7, amended. For an identifier \<open>i\<close> that \<open>ObjectId\<close> accepts and that
  matches no document of the collection concerned, the tools that resolve a document
  by its \<open>_id\<close> return that collection's not-found error: \<open>get_patient_profile\<close>,
  \<open>get_health_summary\<close>, \<open>book_appointment\<close> (for the patient, and for the doctor
  once the patient is found), \<open>update_patient_profile\<close> when a field is supplied,
  \<open>get_doctor_info\<close>, \<open>reschedule_appointment\<close> and \<open>cancel_appointment\<close>.
  The listing tools never look the patient up: whatever the patients collection holds,
  \<open>get_my_appointments\<close> and \<open>get_prescriptions\<close>, and within the ranges of
  \<open>days\<close> and \<open>limit\<close> that raise no exception also
  \<open>get_appointment_reminders\<close>, \<open>get_medical_history\<close> and \<open>get_lab_reports\<close>,
  return a success result listing only documents that carry that \<open>patient_id\<close>.
\<close>

theorem unknown_identifier_results:
  assumes "ObjectId rt i = Some oid"
  shows "(oid \<notin> p_id ` set (patients_collection st) \<longrightarrow>
            get_patient_profile rt st i = Inl (PatientNotFound i)
          \<and> get_health_summary rt utcnow st i = Inl (PatientNotFound i)
          \<and> fst (book_appointment rt utcnow inserted_id st i doctor_id appointment_date
                    appointment_time reason symptoms) = Inl (PatientNotFound i)
          \<and> (truthy email \<or> truthy contact \<or> truthy address \<or> truthy emergency_contact
                \<or> truthy allergy_text \<longrightarrow>
              fst (update_patient_profile rt utcnow st i email contact address emergency_contact
                     allergy_text) = Inl (PatientNotFound i)))
       \<and> (oid \<notin> d_id ` set (doctors_collection st) \<longrightarrow>
            get_doctor_info rt st i = Inl (DoctorNotFound i)
          \<and> (\<forall>pid. ObjectId rt patient_id = Some pid \<and> pid \<in> p_id ` set (patients_collection st) \<longrightarrow>
                fst (book_appointment rt utcnow inserted_id st patient_id i appointment_date
                       appointment_time reason symptoms) = Inl (DoctorNotFound i)))
       \<and> (oid \<notin> ap_id ` set (appointments_collection st) \<longrightarrow>
            fst (reschedule_appointment rt utcnow st i new_date new_time) = Inl (AppointmentNotFound i)
          \<and> fst (cancel_appointment rt utcnow1 utcnow2 st i cancel_reason) = Inl (AppointmentNotFound i))
       \<and> (\<exists>l. get_my_appointments utcnow st i status upcoming_only = Inr l
              \<and> set l \<subseteq> {a \<in> set (appointments_collection st). ap_patient_id a = i})
       \<and> (\<exists>l. get_prescriptions st i active_only = Inr l
              \<and> set l \<subseteq> {r \<in> set (prescriptions_collection st). rx_patient_id r = i})
       \<and> (add_days utcnow days \<noteq> None \<longrightarrow>
            (\<exists>l. get_appointment_reminders utcnow st i days = Inr l
              \<and> set l \<subseteq> {a \<in> set (appointments_collection st). ap_patient_id a = i}))
       \<and> (0 \<le> limit \<and> limit < 2 ^ 63 \<longrightarrow>
            (\<exists>l. get_medical_history st i limit = Inr l
              \<and> set l \<subseteq> {r \<in> set (medical_records_collection st). mr_patient_id r = i})
          \<and> (\<exists>l. get_lab_reports st i limit = Inr l
              \<and> set l \<subseteq> {r \<in> set (lab_reports_collection st). lr_patient_id r = i}))"
proof (intro conjI impI allI)
  assume n: "oid \<notin> p_id ` set (patients_collection st)"
  note f = find_id_None [OF n]
  show "get_patient_profile rt st i = Inl (PatientNotFound i)"
    using assms f by (simp add: get_patient_profile_def)
  show "get_health_summary rt utcnow st i = Inl (PatientNotFound i)"
    using assms f by (simp add: get_health_summary_def)
  show "fst (book_appointment rt utcnow inserted_id st i doctor_id appointment_date
                    appointment_time reason symptoms) = Inl (PatientNotFound i)"
    using assms f by (simp add: book_appointment_def)
  assume "truthy email \<or> truthy contact \<or> truthy address \<or> truthy emergency_contact
                \<or> truthy allergy_text"
  then show "fst (update_patient_profile rt utcnow st i email contact address emergency_contact
                     allergy_text) = Inl (PatientNotFound i)"
    using assms f by (simp add: update_patient_profile_def update_one_def)
next
  assume n: "oid \<notin> d_id ` set (doctors_collection st)"
  note f = find_id_None [OF n]
  show "get_doctor_info rt st i = Inl (DoctorNotFound i)"
    using assms f by (simp add: get_doctor_info_def)
  fix pid
  assume p: "ObjectId rt patient_id = Some pid \<and> pid \<in> p_id ` set (patients_collection st)"
  then obtain patient where "find (\<lambda>x. p_id x = pid) (patients_collection st) = Some patient"
    using find_id_Some [of pid p_id "patients_collection st"] by blast
  then show "fst (book_appointment rt utcnow inserted_id st patient_id i appointment_date
                       appointment_time reason symptoms) = Inl (DoctorNotFound i)"
    using assms f p by (simp add: book_appointment_def)
next
  assume n: "oid \<notin> ap_id ` set (appointments_collection st)"
  note f = find_id_None [OF n]
  show "fst (reschedule_appointment rt utcnow st i new_date new_time) = Inl (AppointmentNotFound i)"
    using assms f by (simp add: reschedule_appointment_def)
  show "fst (cancel_appointment rt utcnow1 utcnow2 st i cancel_reason) = Inl (AppointmentNotFound i)"
    using assms f by (simp add: cancel_appointment_def update_one_appointment_def)
next
  show "\<exists>l. get_my_appointments utcnow st i status upcoming_only = Inr l
              \<and> set l \<subseteq> {a \<in> set (appointments_collection st). ap_patient_id a = i}"
    unfolding get_my_appointments_def by (auto dest!: in_set_takeD)
next
  show "\<exists>l. get_prescriptions st i active_only = Inr l
              \<and> set l \<subseteq> {r \<in> set (prescriptions_collection st). rx_patient_id r = i}"
    unfolding get_prescriptions_def sort_desc_def by (auto dest!: in_set_takeD)
next
  assume "add_days utcnow days \<noteq> None"
  then show "\<exists>l. get_appointment_reminders utcnow st i days = Inr l
              \<and> set l \<subseteq> {a \<in> set (appointments_collection st). ap_patient_id a = i}"
    unfolding get_appointment_reminders_def by (auto dest!: in_set_takeD)
next
  assume l: "0 \<le> limit \<and> limit < 2 ^ 63"
  show "\<exists>l. get_medical_history st i limit = Inr l
              \<and> set l \<subseteq> {r \<in> set (medical_records_collection st). mr_patient_id r = i}"
    unfolding get_medical_history_def sort_desc_def using l
    by (auto simp: limit_to_list_ok dest!: in_set_takeD)
  show "\<exists>l. get_lab_reports st i limit = Inr l
              \<and> set l \<subseteq> {r \<in> set (lab_reports_collection st). lr_patient_id r = i}"
    unfolding get_lab_reports_def sort_desc_def using l
    by (auto simp: limit_to_list_ok dest!: in_set_takeD)
qed


theorem unknown_identifier_results_witness:
  "get_patient_profile sample_runtime (sample_db [sample_appointment ''scheduled''])
     ''65f000000000000000000009'' = Inl (PatientNotFound ''65f000000000000000000009'')
   \<and> get_doctor_info sample_runtime (sample_db [sample_appointment ''scheduled''])
     ''65f000000000000000000009'' = Inl (DoctorNotFound ''65f000000000000000000009'')
   \<and> fst (cancel_appointment sample_runtime 1741000000001 1741000000002
        (sample_db [sample_appointment ''scheduled'']) ''65f000000000000000000009'' None)
     = Inl (AppointmentNotFound ''65f000000000000000000009'')
   \<and> (\<exists>l. get_my_appointments 1741000000000 (sample_db [sample_appointment ''scheduled''])
        ''65f000000000000000000009'' None True = Inr l)"
proof -
  let ?db = "sample_db [sample_appointment ''scheduled'']"
  let ?i = "''65f000000000000000000009''"
  have h: "ObjectId sample_runtime ?i = Some ?i"
    by (simp add: sample_defs)
  have np: "?i \<notin> p_id ` set (patients_collection ?db)"
    and nd: "?i \<notin> d_id ` set (doctors_collection ?db)"
    and na: "?i \<notin> ap_id ` set (appointments_collection ?db)"
    by (simp_all add: sample_defs)
  note t = unknown_identifier_results [OF h, where st = ?db and utcnow = 1741000000000
      and ?utcnow1.0 = 1741000000001 and ?utcnow2.0 = 1741000000002 and cancel_reason = None
      and status = None and upcoming_only = True]
  note a = t [THEN conjunct1, THEN mp, OF np, THEN conjunct1]
  note b = t [THEN conjunct2, THEN conjunct1, THEN mp, OF nd, THEN conjunct1]
  note c = t [THEN conjunct2, THEN conjunct2, THEN conjunct1, THEN mp, OF na, THEN conjunct2]
  from t [THEN conjunct2, THEN conjunct2, THEN conjunct2, THEN conjunct1]
  obtain l where "get_my_appointments 1741000000000 ?db ?i None True = Inr l"
    by (elim exE conjE)
  then have d: "\<exists>l. get_my_appointments 1741000000000 ?db ?i None True = Inr l" ..
  from a b c d show ?thesis by (intro conjI)
qed

end
